theory Spec2Isabelle
  imports Main "HOL-Library.Word"
begin

section \<open>JavaScript values\<close>

text \<open>
  A JavaScript string is a sequence of UTF-16 code units. The regular expressions of
  \<^verbatim>\<open>looksEnglish\<close> have no \<^verbatim>\<open>u\<close> flag, so they count code units.
  \<open>lit\<close> writes an ASCII literal of the source.
\<close>

type_synonym jsstring = "16 word list"

definition lit :: "string \<Rightarrow> jsstring" where
  "lit s = map of_char s"

text \<open>
  What \<^verbatim>\<open>JSON.parse\<close> returns. A number is kept as the text JavaScript prints for
  it (\<^verbatim>\<open>String(n)\<close>): the code never computes with a parsed number, it only tests
  its truthiness and joins it into a string. Both zeros print as \<^verbatim>\<open>0\<close>. An object
  is the list of its own properties; a parsed object has no two properties of one name.
  \<^verbatim>\<open>undefined\<close>, which no parsed value is, is \<open>None\<close> of \<open>json option\<close>.
\<close>

datatype json =
    JNull
  | JBool bool
  | JNum jsstring
  | JStr jsstring
  | JArr "json list"
  | JObj "(jsstring \<times> json) list"

datatype js_error = TypeError

text \<open>
  The text of an HTTP body or of an error message is only ever handed to
  \<^verbatim>\<open>JSON.parse\<close> (or logged), so it is kept as what \<^verbatim>\<open>JSON.parse\<close> makes of it:
  \<open>Some v\<close>, or \<open>None\<close> where it throws a SyntaxError.
\<close>

type_synonym body = "json option"

fun truthy :: "json \<Rightarrow> bool" where
  "truthy JNull = False"
| "truthy (JBool b) = b"
| "truthy (JNum r) = (r \<noteq> lit ''0'')"
| "truthy (JStr s) = (s \<noteq> [])"
| "truthy (JArr xs) = True"
| "truthy (JObj kvs) = True"

text \<open>\<^verbatim>\<open>v.k\<close> for a property name \<open>k\<close> that no prototype defines and that is not an
  array index: only an object can have it. \<^verbatim>\<open>null.k\<close> throws.\<close>

fun get_prop :: "json \<Rightarrow> jsstring \<Rightarrow> js_error + json option" where
  "get_prop JNull k = Inl TypeError"
| "get_prop (JObj kvs) k = Inr (map_of kvs k)"
| "get_prop v k = Inr None"

text \<open>\<^verbatim>\<open>v?.k\<close> with \<open>v\<close> possibly \<^verbatim>\<open>undefined\<close>: \<^verbatim>\<open>null\<close> and
  \<^verbatim>\<open>undefined\<close> give \<^verbatim>\<open>undefined\<close>, nothing throws.\<close>

fun opt_prop :: "json option \<Rightarrow> jsstring \<Rightarrow> json option" where
  "opt_prop (Some (JObj kvs)) k = map_of kvs k"
| "opt_prop v k = None"

text \<open>\<^verbatim>\<open>v?.[0]\<close>: the first element of an array, the first code unit of a string,
  the property \<^verbatim>\<open>"0"\<close> of an object.\<close>

fun opt_index0 :: "json option \<Rightarrow> json option" where
  "opt_index0 (Some (JArr xs)) = (case xs of [] \<Rightarrow> None | x # _ \<Rightarrow> Some x)"
| "opt_index0 (Some (JStr s)) = (case s of [] \<Rightarrow> None | c # _ \<Rightarrow> Some (JStr [c]))"
| "opt_index0 (Some (JObj kvs)) = map_of kvs (lit ''0'')"
| "opt_index0 v = None"

fun intercalate :: "jsstring \<Rightarrow> jsstring list \<Rightarrow> jsstring" where
  "intercalate sep [] = []"
| "intercalate sep [x] = x"
| "intercalate sep (x # y # ys) = x @ sep @ intercalate sep (y # ys)"

fun sequence :: "(js_error + 'a) list \<Rightarrow> js_error + 'a list" where
  "sequence [] = Inr []"
| "sequence (Inl e # rs) = Inl e"
| "sequence (Inr x # rs) = (case sequence rs of Inl e \<Rightarrow> Inl e | Inr xs \<Rightarrow> Inr (x # xs))"

text \<open>
  The string conversion \<^verbatim>\<open>join\<close> applies to an element. An array prints its
  elements separated by commas, \<^verbatim>\<open>null\<close> elements as nothing. A parsed object
  prints as \<^verbatim>\<open>[object Object]\<close>, unless it has a property \<^verbatim>\<open>toString\<close> of its
  own: that is a parsed value, no function, and so is \<^verbatim>\<open>valueOf\<close> or the inherited
  one returns the object, so the conversion throws.
\<close>

fun ToString :: "json \<Rightarrow> js_error + jsstring" where
  "ToString JNull = Inr (lit ''null'')"
| "ToString (JBool b) = Inr (if b then lit ''true'' else lit ''false'')"
| "ToString (JNum r) = Inr r"
| "ToString (JStr s) = Inr s"
| "ToString (JArr xs) =
     (case sequence (map (\<lambda>x. if x = JNull then Inr [] else ToString x) xs) of
        Inl e \<Rightarrow> Inl e
      | Inr ss \<Rightarrow> Inr (intercalate (lit '','') ss))"
| "ToString (JObj kvs) =
     (if lit ''toString'' \<in> fst ` set kvs then Inl TypeError
      else Inr (lit ''[object Object]''))"

text \<open>\<^verbatim>\<open>String.prototype.trim\<close> removes white space and line terminators at both ends.\<close>

definition is_space :: "16 word \<Rightarrow> bool" where
  "is_space c \<longleftrightarrow>
     c \<in> {0x9, 0xA, 0xB, 0xC, 0xD, 0x20, 0xA0, 0x1680, 0x2028, 0x2029, 0x202F, 0x205F,
          0x3000, 0xFEFF} \<or> (0x2000 \<le> c \<and> c \<le> 0x200A)"

definition trim :: "jsstring \<Rightarrow> jsstring" where
  "trim s = rev (dropWhile is_space (rev (dropWhile is_space s)))"

section \<open>IST date grounding\<close>

text \<open>
  Time values are milliseconds since the epoch, as in \<^verbatim>\<open>Date\<close>. The calendar
  functions are those of the ECMAScript specification (Day, DayFromYear, YearFromTime,
  MonthFromTime, DateFromTime, MakeDay). Time values stay within the range of
  \<^verbatim>\<open>Date\<close>, 8.64e15 ms either side of the epoch, where TimeClip changes nothing.
\<close>

definition msPerDay :: int where
  "msPerDay = 86400000"

definition Day :: "int \<Rightarrow> int" where
  "Day t = t div msPerDay"

definition TimeWithinDay :: "int \<Rightarrow> int" where
  "TimeWithinDay t = t mod msPerDay"

definition leap :: "int \<Rightarrow> bool" where
  "leap y \<longleftrightarrow> (y mod 4 = 0 \<and> y mod 100 \<noteq> 0) \<or> y mod 400 = 0"

definition DaysInYear :: "int \<Rightarrow> int" where
  "DaysInYear y = (if leap y then 366 else 365)"

definition DayFromYear :: "int \<Rightarrow> int" where
  "DayFromYear y =
     365 * (y - 1970) + (y - 1969) div 4 - (y - 1901) div 100 + (y - 1601) div 400"

text \<open>A year has 365 or 366 days: the step of \<open>DayFromYear\<close>.\<close>

lemma div_succ:
  fixes a k :: int
  assumes "0 < k"
  shows "(a + 1) div k = a div k + (if k dvd a + 1 then 1 else 0)"
proof (cases "k dvd a + 1")
  case True
  then obtain q where q: "a + 1 = k * q" by (auto simp: dvd_def)
  have "a = (k - 1) + (q - 1) * k" using q by (simp add: algebra_simps)
  then have "a div k = ((k - 1) + (q - 1) * k) div k" by simp
  also have "\<dots> = (k - 1) div k + (q - 1)"
    using assms by (subst div_mult_self1) auto
  also have "(k - 1) div k = 0" using assms by (simp add: div_pos_pos_trivial)
  finally have "a div k = q - 1" by simp
  moreover have "(a + 1) div k = q" using q assms by simp
  ultimately show ?thesis using True by simp
next
  case False
  have m: "0 \<le> a mod k" "a mod k < k" using assms by simp_all
  have "a mod k + 1 \<noteq> k"
  proof
    assume "a mod k + 1 = k"
    then have "(a mod k + 1) mod k = 0" by simp
    then have "(a + 1) mod k = 0" by (simp add: mod_add_left_eq)
    with False show False by (simp add: dvd_eq_mod_eq_0)
  qed
  with m have lt: "a mod k + 1 < k" by simp
  have "a + 1 = (a mod k + 1) + (a div k) * k" by simp
  then have "(a + 1) div k = ((a mod k + 1) + (a div k) * k) div k" by simp
  also have "\<dots> = (a mod k + 1) div k + a div k"
    using assms by (subst div_mult_self1) auto
  also have "(a mod k + 1) div k = 0"
    using m lt by (simp add: div_pos_pos_trivial)
  finally show ?thesis using False by simp
qed

lemma leap_dvd: "leap y \<longleftrightarrow> (4 dvd y \<and> \<not> 100 dvd y) \<or> 400 dvd y"
  by (simp add: leap_def dvd_eq_mod_eq_0)

lemma DayFromYear_Suc: "DayFromYear (y + 1) = DayFromYear y + DaysInYear y"
proof -
  have a: "(y + 1 - 1969) div 4 = (y - 1969) div 4 + (if 4 dvd y then 1 else 0)"
  proof -
    have "(4::int) dvd 1968" by simp
    then have "4 dvd y - 1968 \<longleftrightarrow> 4 dvd y" by (rule dvd_diff_left_iff)
    moreover have "y + 1 - 1969 = (y - 1969) + 1" "y - 1969 + 1 = y - 1968" by simp_all
    ultimately show ?thesis using div_succ [of 4 "y - 1969"] by simp
  qed
  have b: "(y + 1 - 1901) div 100 = (y - 1901) div 100 + (if 100 dvd y then 1 else 0)"
  proof -
    have "(100::int) dvd 1900" by simp
    then have "100 dvd y - 1900 \<longleftrightarrow> 100 dvd y" by (rule dvd_diff_left_iff)
    moreover have "y + 1 - 1901 = (y - 1901) + 1" "y - 1901 + 1 = y - 1900" by simp_all
    ultimately show ?thesis using div_succ [of 100 "y - 1901"] by simp
  qed
  have c: "(y + 1 - 1601) div 400 = (y - 1601) div 400 + (if 400 dvd y then 1 else 0)"
  proof -
    have "(400::int) dvd 1600" by simp
    then have "400 dvd y - 1600 \<longleftrightarrow> 400 dvd y" by (rule dvd_diff_left_iff)
    moreover have "y + 1 - 1601 = (y - 1601) + 1" "y - 1601 + 1 = y - 1600" by simp_all
    ultimately show ?thesis using div_succ [of 400 "y - 1601"] by simp
  qed
  have d1: "400 dvd y \<Longrightarrow> 100 dvd y"
    by (rule dvd_trans [of 100 400 y]) simp_all
  have d2: "100 dvd y \<Longrightarrow> 4 dvd y"
    by (rule dvd_trans [of 4 100 y]) simp_all
  have "DayFromYear (y + 1) =
      365 * (y + 1 - 1970) + (y + 1 - 1969) div 4 - (y + 1 - 1901) div 100 + (y + 1 - 1601) div 400"
    by (simp only: DayFromYear_def)
  also have "\<dots> = DayFromYear y + DaysInYear y"
    unfolding a b c DayFromYear_def DaysInYear_def leap_dvd
    using d1 d2 by auto
  finally show ?thesis .
qed

text \<open>The year of a day number: the largest \<open>y\<close> with \<open>DayFromYear y \<le> d\<close>, searched
  upwards from a year that is not after it.\<close>

function year_from :: "int \<Rightarrow> int \<Rightarrow> int" where
  "year_from y d = (if DayFromYear (y + 1) \<le> d then year_from (y + 1) d else y)"
  by pat_completeness auto
termination
proof (relation "measure (\<lambda>(y, d). nat (d + 1 - DayFromYear (y + 1)))")
  show "wf (measure (\<lambda>(y, d). nat (d + 1 - DayFromYear (y + 1))))"
    by simp
next
  fix y d :: int
  assume "DayFromYear (y + 1) \<le> d"
  moreover have "DayFromYear (y + 1) < DayFromYear (y + 1 + 1)"
    unfolding DayFromYear_Suc [of "y + 1"] DaysInYear_def by (simp split: if_splits)
  ultimately show "((y + 1, d), (y, d)) \<in> measure (\<lambda>(y, d). nat (d + 1 - DayFromYear (y + 1)))"
    by simp
qed

declare year_from.simps [simp del]

definition YearFromDay :: "int \<Rightarrow> int" where
  "YearFromDay d = year_from (1970 + (if 0 \<le> d then d div 366 else d div 365)) d"

definition YearFromTime :: "int \<Rightarrow> int" where
  "YearFromTime t = YearFromDay (Day t)"

definition DayWithinYear :: "int \<Rightarrow> int" where
  "DayWithinYear t = Day t - DayFromYear (YearFromTime t)"

definition InLeapYear :: "int \<Rightarrow> int" where
  "InLeapYear t = (if leap (YearFromTime t) then 1 else 0)"

text \<open>Months count from 0, as in \<^verbatim>\<open>Date\<close>. \<open>month_of n l\<close> is the table of
  MonthFromTime: the month of day \<open>n\<close> of a year, \<open>l\<close> being 1 in a leap year.\<close>

definition month_of :: "int \<Rightarrow> int \<Rightarrow> int" where
  "month_of n l =
     (if n < 31 then 0
      else if n < 59 + l then 1
      else if n < 90 + l then 2
      else if n < 120 + l then 3
      else if n < 151 + l then 4
      else if n < 181 + l then 5
      else if n < 212 + l then 6
      else if n < 243 + l then 7
      else if n < 273 + l then 8
      else if n < 304 + l then 9
      else if n < 334 + l then 10
      else 11)"

definition MonthFromTime :: "int \<Rightarrow> int" where
  "MonthFromTime t = month_of (DayWithinYear t) (InLeapYear t)"

text \<open>The day number within its year of the first day of month \<open>m\<close>.\<close>

definition month_start :: "int \<Rightarrow> int \<Rightarrow> int" where
  "month_start m l =
     (if m = 0 then 0
      else if m = 1 then 31
      else if m = 2 then 59 + l
      else if m = 3 then 90 + l
      else if m = 4 then 120 + l
      else if m = 5 then 151 + l
      else if m = 6 then 181 + l
      else if m = 7 then 212 + l
      else if m = 8 then 243 + l
      else if m = 9 then 273 + l
      else if m = 10 then 304 + l
      else 334 + l)"

definition DateFromTime :: "int \<Rightarrow> int" where
  "DateFromTime t = DayWithinYear t - month_start (MonthFromTime t) (InLeapYear t) + 1"

definition MakeDay :: "int \<Rightarrow> int \<Rightarrow> int \<Rightarrow> int" where
  "MakeDay year month date =
     (let ym = year + month div 12; mn = month mod 12 in
      DayFromYear ym + month_start mn (if leap ym then 1 else 0) + date - 1)"

text \<open>\<^verbatim>\<open>Date.UTC(year, month, date)\<close>: a year from 0 to 99 means 1900 + year.\<close>

definition DateUTC :: "int \<Rightarrow> int \<Rightarrow> int \<Rightarrow> int" where
  "DateUTC year month date =
     MakeDay (if 0 \<le> year \<and> year \<le> 99 then 1900 + year else year) month date * msPerDay"

definition getUTCDate :: "int \<Rightarrow> int" where
  "getUTCDate t = DateFromTime t"

definition setUTCDate :: "int \<Rightarrow> int \<Rightarrow> int" where
  "setUTCDate t date =
     MakeDay (YearFromTime t) (MonthFromTime t) date * msPerDay + TimeWithinDay t"

text \<open>
  A calendar date: the three numbers that \<^verbatim>\<open>formatToParts\<close> prints as \<^verbatim>\<open>yyyy\<close>,
  \<^verbatim>\<open>mm\<close> and \<^verbatim>\<open>dd\<close> (months from 1 here), that \<^verbatim>\<open>istDateISO\<close> joins with
  hyphens, and that \<^verbatim>\<open>split("-").map(Number)\<close> reads back, for a year of the common
  era. The long form of \<^verbatim>\<open>istDateHuman\<close> names the same date.

  The time zone data of the host for Asia/Kolkata is a parameter: \<open>off t\<close> is the offset
  of the zone from UTC at the instant \<open>t\<close>, in milliseconds. It has been 19800000
  (+05:30) at every instant since 1945.
\<close>

record date =
  yyyy :: int
  mm :: int
  dd :: int

definition getISTDateParts :: "(int \<Rightarrow> int) \<Rightarrow> int \<Rightarrow> date" where
  "getISTDateParts off t =
     (let local = t + off t in
      \<lparr>yyyy = YearFromTime local, mm = MonthFromTime local + 1, dd = DateFromTime local\<rparr>)"

definition istDateISO :: "(int \<Rightarrow> int) \<Rightarrow> int \<Rightarrow> date" where
  "istDateISO off t = getISTDateParts off t"

definition istDateHuman :: "(int \<Rightarrow> int) \<Rightarrow> int \<Rightarrow> date" where
  "istDateHuman off t = getISTDateParts off t"

definition addDaysIST :: "(int \<Rightarrow> int) \<Rightarrow> int \<Rightarrow> int \<Rightarrow> int" where
  "addDaysIST off baseDate days =
     (let iso = istDateISO off baseDate;
          dt = DateUTC (yyyy iso) (mm iso - 1) (dd iso)
      in setUTCDate dt (getUTCDate dt + days))"

text \<open>The next day of the Gregorian calendar, for the statement of the date claim.\<close>

definition days_in_month :: "int \<Rightarrow> int \<Rightarrow> int" where
  "days_in_month y m =
     (if m = 2 then (if leap y then 29 else 28)
      else if m = 4 \<or> m = 6 \<or> m = 9 \<or> m = 11 then 30
      else 31)"

definition next_day :: "date \<Rightarrow> date" where
  "next_day c =
     (if dd c < days_in_month (yyyy c) (mm c) then c\<lparr>dd := dd c + 1\<rparr>
      else if mm c < 12 then c\<lparr>mm := mm c + 1, dd := 1\<rparr>
      else \<lparr>yyyy = yyyy c + 1, mm = 1, dd = 1\<rparr>)"

definition kolkata :: "int \<Rightarrow> int" where
  "kolkata t = 19800000"

section \<open>Prompts and payloads\<close>

text \<open>
  \<^verbatim>\<open>getLanguage\<close> reads the item \<^verbatim>\<open>bg_language\<close> of \<^verbatim>\<open>localStorage\<close>
  (\<open>None\<close> is \<^verbatim>\<open>null\<close>, no such item) each time it is called.
\<close>

definition DEFAULT_LANGUAGE :: jsstring where
  "DEFAULT_LANGUAGE = lit ''mr''"

definition MAX_HISTORY :: nat where
  "MAX_HISTORY = 18"

definition getLanguage :: "jsstring option \<Rightarrow> jsstring" where
  "getLanguage item =
     (case item of None \<Rightarrow> DEFAULT_LANGUAGE
      | Some v \<Rightarrow> if v = [] then DEFAULT_LANGUAGE else v)"

text \<open>
  A system instruction is a fixed text with holes. It is kept as the values that fill
  the holes: the grounded dates, and which of the two language texts was chosen. The
  translation instruction has no hole. The builders read the clock with
  \<^verbatim>\<open>new Date()\<close> once for each date they print: six reads for the interpreter's
  prompt and two for Guruji's instruction, in the order of the source. The records
  below hold the instants read.
\<close>

record interpreter_reads =
  at_todayISO :: int
  at_tomorrowISO :: int
  at_dayAfterISO :: int
  at_todayHuman :: int
  at_tomorrowHuman :: int
  at_dayAfterHuman :: int

record guruji_reads =
  at_groundingHuman :: int
  at_groundingISO :: int

datatype language_name = Marathi | English

record interpreter_prompt =
  todayHuman :: date
  todayISO :: date
  tomorrowHuman :: date
  tomorrowISO :: date
  dayAfterHuman :: date
  dayAfterISO :: date
  ui_language :: language_name

record guruji_instruction =
  groundingHuman :: date
  groundingISO :: date
  languageLock :: language_name

datatype instruction =
    InterpreterPrompt interpreter_prompt
  | GurujiInstruction guruji_instruction
  | TranslateInstruction

definition buildInterpreterPrompt ::
  "(int \<Rightarrow> int) \<Rightarrow> interpreter_reads \<Rightarrow> jsstring \<Rightarrow> instruction" where
  "buildInterpreterPrompt off now lang =
     InterpreterPrompt
       \<lparr>todayHuman = istDateHuman off (at_todayHuman now),
        todayISO = istDateISO off (at_todayISO now),
        tomorrowHuman = istDateHuman off (addDaysIST off (at_tomorrowHuman now) 1),
        tomorrowISO = istDateISO off (addDaysIST off (at_tomorrowISO now) 1),
        dayAfterHuman = istDateHuman off (addDaysIST off (at_dayAfterHuman now) 2),
        dayAfterISO = istDateISO off (addDaysIST off (at_dayAfterISO now) 2),
        ui_language = (if lang = lit ''mr'' then Marathi else English)\<rparr>"

definition buildGurujiSystemInstruction ::
  "(int \<Rightarrow> int) \<Rightarrow> guruji_reads \<Rightarrow> jsstring \<Rightarrow> instruction" where
  "buildGurujiSystemInstruction off now lang =
     GurujiInstruction
       \<lparr>groundingHuman = istDateHuman off (at_groundingHuman now),
        groundingISO = istDateISO off (at_groundingISO now),
        languageLock = (if lang = lit ''mr'' then Marathi else English)\<rparr>"

text \<open>A message of a session log, and a turn of the \<^verbatim>\<open>contents\<close> of a request
  (\<^verbatim>\<open>{role, parts: [{text}]}\<close>).\<close>

record message =
  role :: jsstring
  content :: jsstring
  tsISO :: jsstring

record turn =
  turn_role :: jsstring
  turn_text :: jsstring

text \<open>Temperature and topP in hundredths.\<close>

record generation_config =
  temperature :: nat
  topP :: "nat option"
  topK :: "nat option"
  maxOutputTokens :: nat

record payload =
  systemInstruction :: instruction
  contents :: "turn list"
  generationConfig :: generation_config

text \<open>\<^verbatim>\<open>xs.slice(-n)\<close>: the last \<open>n\<close> elements, all of them when there are fewer.\<close>

definition slice_last :: "nat \<Rightarrow> 'a list \<Rightarrow> 'a list" where
  "slice_last n xs = drop (length xs - n) xs"

definition history_turn :: "message \<Rightarrow> turn" where
  "history_turn m =
     \<lparr>turn_role = (if role m = lit ''assistant'' then lit ''model'' else lit ''user''),
      turn_text = content m\<rparr>"

definition buildGurujiPayload ::
  "(int \<Rightarrow> int) \<Rightarrow> guruji_reads \<Rightarrow> jsstring option \<Rightarrow> message list \<Rightarrow> jsstring \<Rightarrow>
     payload" where
  "buildGurujiPayload off now item sessionMessages finalUserText =
     (let lang = getLanguage item;
          system = buildGurujiSystemInstruction off now lang;
          history = map history_turn (slice_last MAX_HISTORY sessionMessages)
      in \<lparr>systemInstruction = system,
          contents = history @ [\<lparr>turn_role = lit ''user'', turn_text = finalUserText\<rparr>],
          generationConfig =
            \<lparr>temperature = 45, topP = Some 90, topK = Some 32, maxOutputTokens = 2048\<rparr>\<rparr>)"

section \<open>Gemini helpers\<close>

definition part_text :: "json \<Rightarrow> js_error + json" where
  \<comment> \<open>\<^verbatim>\<open>(p) => p.text || ""\<close>\<close>
  "part_text p =
     (case get_prop p (lit ''text'') of
        Inl e \<Rightarrow> Inl e
      | Inr None \<Rightarrow> Inr (JStr [])
      | Inr (Some v) \<Rightarrow> Inr (if truthy v then v else JStr []))"

definition extractTextFromGemini :: "json \<Rightarrow> js_error + jsstring" where
  "extractTextFromGemini data =
     (let c0 = opt_index0 (opt_prop (Some data) (lit ''candidates''));
          parts = opt_prop (opt_prop c0 (lit ''content'')) (lit ''parts'')
      in case parts of
           Some (JArr ps) \<Rightarrow>
             (case sequence (map part_text ps) of
                Inl e \<Rightarrow> Inl e
              | Inr vs \<Rightarrow>
                  (case sequence (map ToString vs) of
                     Inl e \<Rightarrow> Inl e
                   | Inr ss \<Rightarrow> Inr (concat ss)))
         | _ \<Rightarrow> Inr [])"

text \<open>\<^verbatim>\<open>s.includes(t)\<close> on strings, \<^verbatim>\<open>s.endsWith("s")\<close>, and
  \<^verbatim>\<open>s.replace("s", "")\<close>, which removes the first \<^verbatim>\<open>s\<close> only.\<close>

fun includes_str :: "jsstring \<Rightarrow> jsstring \<Rightarrow> bool" where
  "includes_str [] t = (t = [])"
| "includes_str (c # cs) t = (take (length t) (c # cs) = t \<or> includes_str cs t)"

definition endsWith_s :: "jsstring \<Rightarrow> bool" where
  "endsWith_s s \<longleftrightarrow> s \<noteq> [] \<and> last s = 0x73"

fun replace_s :: "jsstring \<Rightarrow> jsstring" where
  "replace_s [] = []"
| "replace_s (c # cs) = (if c = 0x73 then cs else c # replace_s cs)"

text \<open>
  The numbers that occur here are the doubles with an integral value, the two
  infinities and NaN. \<open>to_number x\<close> is the double nearest to the integer \<open>x\<close>, ties
  to the even significand of 53 bits, and an infinity from \<open>2 ^ 1024 - 2 ^ 970\<close> on; up
  to \<open>2 ^ 53\<close> it is \<open>x\<close> itself. Product and sum round the exact result in this way.
  Negative zero is not told from zero: no operation here separates them.
\<close>

datatype number = NaN | Finite int | PosInfinity | NegInfinity

function bit_length :: "int \<Rightarrow> nat" where
  "bit_length n = (if n \<le> 0 then 0 else Suc (bit_length (n div 2)))"
  by pat_completeness auto

termination
  by (relation "measure nat") auto

declare bit_length.simps [simp del]

definition to_number :: "int \<Rightarrow> number" where
  "to_number x =
     (if \<bar>x\<bar> \<le> 2 ^ 53 then Finite x
      else
        (let e = bit_length \<bar>x\<bar> - 53;
             q = \<bar>x\<bar> div 2 ^ e;
             r = \<bar>x\<bar> mod 2 ^ e;
             half = 2 ^ (e - 1);
             m = (if r > half \<or> (r = half \<and> odd q) then q + 1 else q) * 2 ^ e
         in if m \<ge> 2 ^ 1024 then (if x < 0 then NegInfinity else PosInfinity)
            else Finite (if x < 0 then - m else m)))"

definition times_number :: "int \<Rightarrow> int \<Rightarrow> number" where
  \<comment> \<open>\<^verbatim>\<open>a * b\<close> on two finite numbers\<close>
  "times_number a b = to_number (a * b)"

definition plus_number :: "int \<Rightarrow> number \<Rightarrow> number" where
  \<comment> \<open>\<^verbatim>\<open>a + b\<close> with \<open>a\<close> finite\<close>
  "plus_number a b =
     (case b of Finite v \<Rightarrow> to_number (a + v) | other \<Rightarrow> other)"


text \<open>
  \<^verbatim>\<open>parseInt(s, 10)\<close>: leading white space, a sign, then the longest run of decimal
  digits; NaN when there is no digit. The digits are read exactly and the integer is
  rounded once (the language lets an implementation zero the digits after the
  twentieth instead). \<^verbatim>\<open>Number.isFinite\<close> is false on NaN and on the infinities.
\<close>

definition is_digit :: "16 word \<Rightarrow> bool" where
  "is_digit c \<longleftrightarrow> 0x30 \<le> c \<and> c \<le> 0x39"

definition digits_value :: "jsstring \<Rightarrow> int" where
  "digits_value ds = foldl (\<lambda>a c. 10 * a + (uint c - 48)) 0 ds"

definition parseInt10 :: "jsstring \<Rightarrow> number" where
  "parseInt10 s =
     (let s1 = dropWhile is_space s;
          sign = (if s1 \<noteq> [] \<and> hd s1 = 0x2D then - 1 else 1);
          s2 = (if s1 \<noteq> [] \<and> (hd s1 = 0x2D \<or> hd s1 = 0x2B) then tl s1 else s1);
          ds = takeWhile is_digit s2
      in if ds = [] then NaN else to_number (sign * digits_value ds))"

definition isFinite :: "number \<Rightarrow> bool" where
  "isFinite n = (case n of Finite v \<Rightarrow> True | other \<Rightarrow> False)"

text \<open>The callback of \<^verbatim>\<open>find\<close>: \<^verbatim>\<open>d["@type"]?.includes("RetryInfo")\<close>. A
  \<^verbatim>\<open>null\<close> detail throws; so does a type that is neither a string nor an array, which
  has no function \<^verbatim>\<open>includes\<close>.\<close>

fun is_retry_info :: "json \<Rightarrow> js_error + bool" where
  "is_retry_info JNull = Inl TypeError"
| "is_retry_info (JObj kvs) =
     (case map_of kvs (lit ''@type'') of
        None \<Rightarrow> Inr False
      | Some JNull \<Rightarrow> Inr False
      | Some (JStr t) \<Rightarrow> Inr (includes_str t (lit ''RetryInfo''))
      | Some (JArr xs) \<Rightarrow> Inr (JStr (lit ''RetryInfo'') \<in> set xs)
      | Some v \<Rightarrow> Inl TypeError)"
| "is_retry_info d = Inr False"

fun find_detail :: "json list \<Rightarrow> js_error + json option" where
  "find_detail [] = Inr None"
| "find_detail (d # ds) =
     (case is_retry_info d of
        Inl e \<Rightarrow> Inl e
      | Inr True \<Rightarrow> Inr (Some d)
      | Inr False \<Rightarrow> find_detail ds)"

text \<open>\<^verbatim>\<open>obj?.error?.details?.find(...)?.retryDelay\<close>. Details that are neither absent,
  \<^verbatim>\<open>null\<close> nor an array have no function \<^verbatim>\<open>find\<close>: the call throws.\<close>

definition retryDelay_of :: "json \<Rightarrow> js_error + json option" where
  "retryDelay_of obj =
     (case opt_prop (opt_prop (Some obj) (lit ''error'')) (lit ''details'') of
        None \<Rightarrow> Inr None
      | Some JNull \<Rightarrow> Inr None
      | Some (JArr ds) \<Rightarrow>
          (case find_detail ds of Inl e \<Rightarrow> Inl e | Inr d \<Rightarrow> Inr (opt_prop d (lit ''retryDelay'')))
      | Some v \<Rightarrow> Inl TypeError)"

text \<open>\<open>None\<close> is \<^verbatim>\<open>null\<close>, \<open>Some v\<close> a finite number. Every exception is caught and
  gives \<^verbatim>\<open>null\<close>.\<close>

definition parseRetryDelaySeconds :: "body \<Rightarrow> int option" where
  "parseRetryDelaySeconds errText =
     (case errText of
        None \<Rightarrow> None
      | Some obj \<Rightarrow>
          (case retryDelay_of obj of
             Inr (Some (JStr retryDelay)) \<Rightarrow>
               if retryDelay \<noteq> [] \<and> endsWith_s retryDelay then
                 (let sec = parseInt10 (replace_s retryDelay)
                  in if isFinite sec then (case sec of Finite v \<Rightarrow> Some v | other \<Rightarrow> None)
                     else None)
               else None
           | _ \<Rightarrow> None))"

definition devanagariCount :: "jsstring \<Rightarrow> nat" where
  "devanagariCount s = length (filter (\<lambda>c. 0x0900 \<le> c \<and> c \<le> 0x097F) s)"

definition latinCount :: "jsstring \<Rightarrow> nat" where
  "latinCount s =
     length (filter (\<lambda>c. (0x41 \<le> c \<and> c \<le> 0x5A) \<or> (0x61 \<le> c \<and> c \<le> 0x7A)) s)"

definition looksEnglish :: "jsstring \<Rightarrow> bool" where
  "looksEnglish s \<longleftrightarrow> latinCount s > 40 \<and> devanagariCount s < 10"

text \<open>
  What the network does with one \<^verbatim>\<open>fetch\<close>: a response with a status and a body, or
  an exception (the abort at the timeout, a network failure) with a message.
  \<^verbatim>\<open>res.ok\<close> is a status from 200 to 299. \<^verbatim>\<open>geminiFetch\<close> returns
  \<^verbatim>\<open>{ok: true, status, json, text}\<close> or \<^verbatim>\<open>{ok: false, status, text}\<close>.
\<close>

datatype http_outcome = Response nat body | Threw body

datatype fetch_result = OkResult nat json body | FailResult nat body

definition safeParseJSON :: "body \<Rightarrow> json \<Rightarrow> json" where
  "safeParseJSON str fallback = (case str of None \<Rightarrow> fallback | Some v \<Rightarrow> v)"

definition geminiFetch :: "http_outcome \<Rightarrow> fetch_result" where
  "geminiFetch out =
     (case out of
        Response st txt \<Rightarrow>
          if \<not> (200 \<le> st \<and> st \<le> 299) then FailResult st txt
          else OkResult st (safeParseJSON txt JNull) txt
      | Threw msg \<Rightarrow> FailResult 0 msg)"

section \<open>The send flow\<close>

text \<open>
  The state the handlers share: the sessions and the pending retry (variables of the
  script), the items of \<^verbatim>\<open>localStorage\<close> for the language and the API key,
  \<^verbatim>\<open>navigator.onLine\<close>, and two traces: the toasts shown, by kind, and the requests
  handed to \<^verbatim>\<open>fetch\<close>. Typing indicator, disabled input and rendering are left out.
\<close>

datatype endpoint = GURUJI_URL | INTERPRETER_URL

record request =
  url :: endpoint
  apiKey :: jsstring
  sent :: payload
  timeoutMs :: nat

datatype toast =
    NoApiKey
  | Offline
  | RateLimitRetryAfter int
  | RateLimitGeneric
  | InvalidKey
  | BadRequest
  | ModelNotFound
  | ApiError nat

record session =
  sid :: jsstring
  title :: jsstring
  createdAtISO :: jsstring
  updatedAtISO :: jsstring
  messages :: "message list"

record retry =
  sessionId :: jsstring
  lastUserText :: jsstring
  retryAtMs :: number

record app =
  sessions :: "session list"
  activeSessionId :: "jsstring option"
  pendingRetry :: "retry option"
  language_item :: "jsstring option"
  api_key_item :: "jsstring option"
  onLine :: bool
  toasts :: "toast list"
  fetches :: "request list"

text \<open>
  What one turn meets outside the program: the zone data, the clock at each read (the
  reads of the two builders, and \<^verbatim>\<open>Date.now()\<close> where the retry is scheduled), the
  outcome of each of its three requests, and the values that other handlers (the
  language toggle, the settings, another tab) write to the language item while the turn
  waits for the interpreter's and for Guruji's answer. One turn is in flight at a time.
\<close>

record turn_env =
  zone :: "int \<Rightarrow> int"
  clock_interp :: interpreter_reads
  out_interp :: http_outcome
  writes_interp :: "jsstring list"
  clock_guruji :: guruji_reads
  out_guruji :: http_outcome
  writes_guruji :: "jsstring list"
  clock_retry :: int
  out_translate :: http_outcome
  ts_assistant :: jsstring
  ts_updated :: jsstring

definition getApiKey :: "jsstring option \<Rightarrow> jsstring" where
  "getApiKey item = trim (case item of None \<Rightarrow> [] | Some k \<Rightarrow> k)"

definition showToast :: "toast \<Rightarrow> app \<Rightarrow> app" where
  "showToast m a = a\<lparr>toasts := toasts a @ [m]\<rparr>"

definition do_fetch :: "request \<Rightarrow> app \<Rightarrow> app" where
  "do_fetch r a = a\<lparr>fetches := fetches a @ [r]\<rparr>"

definition waited :: "jsstring list \<Rightarrow> app \<Rightarrow> app" where
  "waited ws a = (if ws = [] then a else a\<lparr>language_item := Some (last ws)\<rparr>)"

definition interpreter_payload :: "instruction \<Rightarrow> jsstring \<Rightarrow> payload" where
  "interpreter_payload prompt rawUserText =
     \<lparr>systemInstruction = prompt,
      contents = [\<lparr>turn_role = lit ''user'', turn_text = rawUserText\<rparr>],
      generationConfig =
        \<lparr>temperature = 15, topP = Some 90, topK = None, maxOutputTokens = 240\<rparr>\<rparr>"

definition interpretUserQuery ::
  "turn_env \<Rightarrow> app \<Rightarrow> jsstring \<Rightarrow> jsstring \<Rightarrow> (js_error + jsstring) \<times> app" where
  "interpretUserQuery env a rawUserText key =
     (let lang = getLanguage (language_item a);
          prompt = buildInterpreterPrompt (zone env) (clock_interp env) lang;
          a1 = do_fetch \<lparr>url = INTERPRETER_URL, apiKey = key,
                 sent = interpreter_payload prompt rawUserText, timeoutMs = 20000\<rparr> a;
          a2 = waited (writes_interp env) a1
      in case geminiFetch (out_interp env) of
           FailResult st txt \<Rightarrow> (Inr rawUserText, a2)
         | OkResult st js txt \<Rightarrow>
             (case extractTextFromGemini js of
                Inl e \<Rightarrow> (Inl e, a2)
              | Inr t \<Rightarrow> (Inr (if trim t = [] then rawUserText else trim t), a2)))"

definition translate_payload :: "jsstring \<Rightarrow> payload" where
  "translate_payload replyText =
     \<lparr>systemInstruction = TranslateInstruction,
      contents = [\<lparr>turn_role = lit ''user'', turn_text = replyText\<rparr>],
      generationConfig =
        \<lparr>temperature = 20, topP = None, topK = None, maxOutputTokens = 1400\<rparr>\<rparr>"

definition translateToMarathiIfNeeded ::
  "turn_env \<Rightarrow> app \<Rightarrow> jsstring \<Rightarrow> jsstring \<Rightarrow> (js_error + jsstring) \<times> app" where
  "translateToMarathiIfNeeded env a replyText key =
     (let lang = getLanguage (language_item a) in
      if lang \<noteq> lit ''mr'' then (Inr replyText, a)
      else if \<not> looksEnglish replyText then (Inr replyText, a)
      else
        (let a1 = do_fetch \<lparr>url = INTERPRETER_URL, apiKey = key,
                    sent = translate_payload replyText, timeoutMs = 25000\<rparr> a
         in case geminiFetch (out_translate env) of
              FailResult st txt \<Rightarrow> (Inr replyText, a1)
            | OkResult st js txt \<Rightarrow>
                (case extractTextFromGemini js of
                   Inl e \<Rightarrow> (Inl e, a1)
                 | Inr t \<Rightarrow> (Inr (if trim t = [] then replyText else trim t), a1))))"

text \<open>\<^verbatim>\<open>Date.now() + sec * 1000\<close>, and the branch of \<^verbatim>\<open>callGuruji\<close> for a result
  that is not ok.\<close>

definition retry_time :: "int \<Rightarrow> int \<Rightarrow> number" where
  "retry_time now sec = plus_number now (times_number sec 1000)"

definition report_failure :: "turn_env \<Rightarrow> session \<Rightarrow> jsstring \<Rightarrow> nat \<Rightarrow> body \<Rightarrow> app \<Rightarrow> app" where
  "report_failure env session rawUserText st txt a =
     (if st = 429 then
        (case parseRetryDelaySeconds txt of
           None \<Rightarrow> showToast RateLimitGeneric a
         | Some sec \<Rightarrow>
             if sec \<noteq> 0 then
               (showToast (RateLimitRetryAfter sec) a)
                 \<lparr>pendingRetry := Some \<lparr>sessionId = sid session, lastUserText = rawUserText,
                    retryAtMs = retry_time (clock_retry env) sec\<rparr>\<rparr>
             else showToast RateLimitGeneric a)
      else if st = 401 \<or> st = 403 then showToast InvalidKey a
      else if st = 400 then showToast BadRequest a
      else if st = 404 then showToast ModelNotFound a
      else showToast (ApiError st) a)"

text \<open>
  \<^verbatim>\<open>callGuruji(session, rawUserText)\<close>. The session object is passed and returned
  beside the state; the caller writes it back. The first component is the exception the
  call ends with, if any: there is no \<^verbatim>\<open>catch\<close>, only a \<^verbatim>\<open>finally\<close>.
\<close>

definition callGuruji ::
  "turn_env \<Rightarrow> app \<Rightarrow> session \<Rightarrow> jsstring \<Rightarrow> js_error option \<times> app \<times> session" where
  "callGuruji env a session rawUserText =
     (let key = getApiKey (api_key_item a) in
      if key = [] then (None, showToast NoApiKey a, session)
      else if \<not> onLine a then (None, showToast Offline a, session)
      else
        (case interpretUserQuery env a rawUserText key of
           (Inl e, a1) \<Rightarrow> (Some e, a1, session)
         | (Inr rewritten, a1) \<Rightarrow>
             (let pl = buildGurujiPayload (zone env) (clock_guruji env) (language_item a1)
                         (messages session) rewritten;
                  a2 = waited (writes_guruji env)
                         (do_fetch \<lparr>url = GURUJI_URL, apiKey = key, sent = pl,
                            timeoutMs = 30000\<rparr> a1)
              in case geminiFetch (out_guruji env) of
                   FailResult st txt \<Rightarrow>
                     (None, report_failure env session rawUserText st txt a2, session)
                 | OkResult st js txt \<Rightarrow>
                     (case extractTextFromGemini js of
                        Inl e \<Rightarrow> (Some e, a2, session)
                      | Inr t \<Rightarrow>
                          (let reply0 = (if trim t = [] then lit ''[No response]'' else trim t)
                           in case translateToMarathiIfNeeded env a2 reply0 key of
                                (Inl e, a3) \<Rightarrow> (Some e, a3, session)
                              | (Inr reply, a3) \<Rightarrow>
                                  (None, a3\<lparr>pendingRetry := None\<rparr>,
                                   session\<lparr>messages := messages session @
                                       [\<lparr>role = lit ''assistant'', content = reply,
                                         tsISO = ts_assistant env\<rparr>],
                                     updatedAtISO := ts_updated env\<rparr>))))))"

text \<open>\<^verbatim>\<open>sessions.find((s) => s.id === activeSessionId)\<close>, as the position of the
  session found.\<close>

fun find_index :: "('a \<Rightarrow> bool) \<Rightarrow> 'a list \<Rightarrow> nat option" where
  "find_index P [] = None"
| "find_index P (x # xs) = (if P x then Some 0 else map_option Suc (find_index P xs))"

definition getActiveSession :: "app \<Rightarrow> nat option" where
  "getActiveSession a =
     (case activeSessionId a of
        None \<Rightarrow> None
      | Some i \<Rightarrow> find_index (\<lambda>s. sid s = i) (sessions a))"

definition updateSessionTitleFromFirstMessage :: "session \<Rightarrow> jsstring \<Rightarrow> session" where
  "updateSessionTitleFromFirstMessage session firstUserText =
     (if title session = lit ''New Consultation'' \<and> firstUserText \<noteq> [] then
        session\<lparr>title := take 32 firstUserText @
                   (if length firstUserText > 32 then [0x2026] else [])\<rparr>
      else session)"

text \<open>The part of \<^verbatim>\<open>insertUserMessage\<close> that writes to the session: the push of the
  user's message, the time stamp, and the title on the first user message.\<close>

definition push_user_message :: "session \<Rightarrow> jsstring \<Rightarrow> jsstring \<Rightarrow> session" where
  "push_user_message session txt ts =
     (let s1 = session\<lparr>messages := messages session @
                          [\<lparr>role = lit ''user'', content = txt, tsISO = ts\<rparr>],
                        updatedAtISO := ts\<rparr>
      in if length (filter (\<lambda>m. role m = lit ''user'') (messages s1)) = 1
         then updateSessionTitleFromFirstMessage s1 txt else s1)"

definition insertUserMessage ::
  "turn_env \<Rightarrow> jsstring \<Rightarrow> app \<Rightarrow> jsstring \<Rightarrow> js_error option \<times> app" where
  "insertUserMessage env ts a rawText =
     (let txt = trim rawText in
      if txt = [] then (None, a)
      else
        (case getActiveSession a of
           None \<Rightarrow> (None, a)
         | Some i \<Rightarrow>
             (let session = push_user_message (sessions a ! i) txt ts;
                  a1 = a\<lparr>sessions := (sessions a)[i := session]\<rparr>
              in case callGuruji env a1 session txt of
                   (err, a2, s3) \<Rightarrow> (err, a2\<lparr>sessions := (sessions a2)[i := s3]\<rparr>))))"


section \<open>Notions of the claims and sample inputs\<close>

text \<open>The decimal text of a natural number, for a delay written \<^verbatim>\<open><N>s\<close>.\<close>

definition digit_char :: "nat \<Rightarrow> 16 word" where
  "digit_char d = of_nat (48 + d)"

fun digits :: "nat \<Rightarrow> jsstring" where
  "digits n = (if n < 10 then [digit_char n] else digits (n div 10) @ [digit_char (n mod 10)])"

declare digits.simps [simp del]

text \<open>A call that gives no text to use: the result is not ok (an error status, a
  timeout, a network failure), or the text extracted from it is empty or white space.\<close>

definition no_usable_text :: "http_outcome \<Rightarrow> bool" where
  "no_usable_text out =
     (case geminiFetch out of
        FailResult st txt \<Rightarrow> True
      | OkResult st js txt \<Rightarrow>
          (case extractTextFromGemini js of Inl e \<Rightarrow> False | Inr t \<Rightarrow> trim t = []))"

text \<open>The three requests of a turn, and the state when Guruji's answer arrives.\<close>

definition interpreter_request :: "turn_env \<Rightarrow> app \<Rightarrow> jsstring \<Rightarrow> request" where
  "interpreter_request env a raw =
     \<lparr>url = INTERPRETER_URL, apiKey = getApiKey (api_key_item a),
      sent = interpreter_payload
        (buildInterpreterPrompt (zone env) (clock_interp env) (getLanguage (language_item a))) raw,
      timeoutMs = 20000\<rparr>"

definition guruji_request :: "turn_env \<Rightarrow> app \<Rightarrow> session \<Rightarrow> jsstring \<Rightarrow> request" where
  "guruji_request env a s q =
     \<lparr>url = GURUJI_URL, apiKey = getApiKey (api_key_item a),
      sent = buildGurujiPayload (zone env) (clock_guruji env)
        (language_item (waited (writes_interp env) a)) (messages s) q,
      timeoutMs = 30000\<rparr>"

definition translate_request :: "app \<Rightarrow> jsstring \<Rightarrow> request" where
  "translate_request a reply =
     \<lparr>url = INTERPRETER_URL, apiKey = getApiKey (api_key_item a),
      sent = translate_payload reply, timeoutMs = 25000\<rparr>"

definition at_answer :: "turn_env \<Rightarrow> app \<Rightarrow> session \<Rightarrow> jsstring \<Rightarrow> jsstring \<Rightarrow> app" where
  "at_answer env a s raw q =
     waited (writes_guruji env)
       (do_fetch (guruji_request env a s q)
          (waited (writes_interp env) (do_fetch (interpreter_request env a raw) a)))"

text \<open>The error body of the specification's 429 example, with a given delay, and a
  success body with one candidate of one part.\<close>

definition retry_info_body :: "jsstring \<Rightarrow> json" where
  "retry_info_body delay =
     JObj [(lit ''error'', JObj [(lit ''details'',
       JArr [JObj [(lit ''@type'', JStr (lit ''type.googleapis.com/google.rpc.RetryInfo'')),
                   (lit ''retryDelay'', JStr delay)]])])]"

text \<open>
  The shape of an error body that carries a retry delay, said without the code's lookup:
  the array under \<^verbatim>\<open>error.details\<close>; an entry that is a RetryInfo detail with a given
  delay (an object whose \<^verbatim>\<open>@type\<close> is a string containing \<^verbatim>\<open>RetryInfo\<close> and whose
  \<^verbatim>\<open>retryDelay\<close> is that string); and an entry of another kind (an object whose
  \<^verbatim>\<open>@type\<close> is absent or a string that does not contain \<^verbatim>\<open>RetryInfo\<close>). The body
  below is the one the Gemini API sends with a 429: the RetryInfo detail comes third.
\<close>

definition error_details :: "json \<Rightarrow> json list option" where
  "error_details obj =
     (case obj of
        JObj kvs \<Rightarrow>
          (case map_of kvs (lit ''error'') of
             Some (JObj e) \<Rightarrow>
               (case map_of e (lit ''details'') of Some (JArr ds) \<Rightarrow> Some ds | _ \<Rightarrow> None)
           | _ \<Rightarrow> None)
      | _ \<Rightarrow> None)"

definition retry_info_detail :: "jsstring \<Rightarrow> json \<Rightarrow> bool" where
  "retry_info_detail delay d =
     (case d of
        JObj kvs \<Rightarrow>
          (case map_of kvs (lit ''@type'') of
             Some (JStr t) \<Rightarrow>
               includes_str t (lit ''RetryInfo'') \<and>
               map_of kvs (lit ''retryDelay'') = Some (JStr delay)
           | _ \<Rightarrow> False)
      | _ \<Rightarrow> False)"

definition other_detail :: "json \<Rightarrow> bool" where
  "other_detail d =
     (case d of
        JObj kvs \<Rightarrow>
          (case map_of kvs (lit ''@type'') of
             None \<Rightarrow> True
           | Some (JStr t) \<Rightarrow> \<not> includes_str t (lit ''RetryInfo'')
           | Some v \<Rightarrow> False)
      | _ \<Rightarrow> False)"

definition quota_failure_detail :: json where
  "quota_failure_detail =
     JObj [(lit ''@type'', JStr (lit ''type.googleapis.com/google.rpc.QuotaFailure''))]"

definition help_detail :: json where
  "help_detail = JObj [(lit ''@type'', JStr (lit ''type.googleapis.com/google.rpc.Help''))]"

definition retry_detail :: "jsstring \<Rightarrow> json" where
  "retry_detail delay =
     JObj [(lit ''@type'', JStr (lit ''type.googleapis.com/google.rpc.RetryInfo'')),
           (lit ''retryDelay'', JStr delay)]"

definition gemini_429_body :: "jsstring \<Rightarrow> json" where
  "gemini_429_body delay =
     JObj [(lit ''error'',
       JObj [(lit ''code'', JNum (lit ''429'')),
             (lit ''status'', JStr (lit ''RESOURCE_EXHAUSTED'')),
             (lit ''details'',
              JArr [quota_failure_detail, help_detail, retry_detail delay])])]"

text \<open>An error body whose details hold \<^verbatim>\<open>null\<close> before the RetryInfo detail.\<close>

definition null_detail_body :: "jsstring \<Rightarrow> json" where
  "null_detail_body delay =
     JObj [(lit ''error'',
       JObj [(lit ''details'', JArr [quota_failure_detail, JNull, retry_detail delay])])]"

definition reply_body :: "json list \<Rightarrow> json" where
  "reply_body ps =
     JObj [(lit ''candidates'', JArr [JObj [(lit ''content'', JObj [(lit ''parts'', JArr ps)])]])]"

definition text_part :: "jsstring \<Rightarrow> json" where
  "text_part t = JObj [(lit ''text'', JStr t)]"

text \<open>The text a well-formed part contributes: the string under \<^verbatim>\<open>text\<close>, nothing when
  there is none. \<open>None\<close> for any other part.\<close>

definition part_string :: "json \<Rightarrow> jsstring option" where
  "part_string p =
     (case p of
        JObj kvs \<Rightarrow>
          (case map_of kvs (lit ''text'') of
             None \<Rightarrow> Some []
           | Some (JStr t) \<Rightarrow> Some t
           | Some v \<Rightarrow> None)
      | _ \<Rightarrow> None)"

text \<open>Two replies in English, one of 46 and one of exactly 40 Latin letters.\<close>

definition english_reply :: jsstring where
  "english_reply = lit ''Hari Om. Today is Amavasya, it is not good for Shubha Karya.''"

definition forty_letter_reply :: jsstring where
  "forty_letter_reply = lit ''Hari Om. Today is not a good day for the Havan, my Bal.''"

definition sample_session :: session where
  "sample_session =
     \<lparr>sid = lit ''s1'', title = lit ''agnivas'', createdAtISO = lit ''t0'',
      updatedAtISO = lit ''t0'',
      messages = [\<lparr>role = lit ''user'', content = lit ''udya agnivas'', tsISO = lit ''t0''\<rparr>]\<rparr>"

definition sample_app :: app where
  "sample_app =
     \<lparr>sessions = [sample_session], activeSessionId = Some (lit ''s1''), pendingRetry = None,
      language_item = Some (lit ''mr''), api_key_item = Some (lit ''key''), onLine = True,
      toasts = [], fetches = []\<rparr>"

text \<open>Clock reads that all fall on one instant.\<close>

definition reads_at :: "int \<Rightarrow> interpreter_reads" where
  "reads_at t =
     \<lparr>at_todayISO = t, at_tomorrowISO = t, at_dayAfterISO = t,
      at_todayHuman = t, at_tomorrowHuman = t, at_dayAfterHuman = t\<rparr>"

definition grounding_at :: "int \<Rightarrow> guruji_reads" where
  "grounding_at t = \<lparr>at_groundingHuman = t, at_groundingISO = t\<rparr>"

definition sample_env :: "http_outcome \<Rightarrow> http_outcome \<Rightarrow> http_outcome \<Rightarrow> turn_env" where
  "sample_env o1 o2 o3 =
     \<lparr>zone = kolkata, clock_interp = reads_at 1770000000000, out_interp = o1,
      writes_interp = [],
      clock_guruji = grounding_at 1770000001000, out_guruji = o2, writes_guruji = [],
      clock_retry = 1770000002000, out_translate = o3,
      ts_assistant = lit ''t1'', ts_updated = lit ''t2''\<rparr>"




text \<open>
  The length of a month (months from 0) and the calendar date of a day number, which is
  what the parts of an instant come to: they depend on its day number only. And the
  offsets of a zone that observes daylight saving time, Europe/Berlin in 2026.
\<close>

definition month_len :: "int \<Rightarrow> int \<Rightarrow> int" where
  "month_len m l =
     (if m = 1 then 28 + l else if m = 3 \<or> m = 5 \<or> m = 8 \<or> m = 10 then 30 else 31)"

definition date_of_day :: "int \<Rightarrow> date" where
  "date_of_day d =
     (let y = YearFromDay d; n = d - DayFromYear y; l = (if leap y then 1 else 0);
          m = month_of n l
      in \<lparr>yyyy = y, mm = m + 1, dd = n - month_start m l + 1\<rparr>)"

definition berlin :: "int \<Rightarrow> int" where
  "berlin u = (if 1774746000000 \<le> u \<and> u < 1792890000000 then 7200000 else 3600000)"

text \<open>A zone west of Greenwich that observes daylight saving time: America/New_York in
  2026, at -04:00 from 8 March 07:00 UTC to 1 November 06:00 UTC and at -05:00 else.\<close>

definition new_york :: "int \<Rightarrow> int" where
  "new_york u =
     (if 1772953200000 \<le> u \<and> u < 1793512800000 then - 14400000 else - 18000000)"

text \<open>The language a request's system instruction was built for, and a turn during
  which nothing writes to the language item.\<close>

fun instruction_language :: "instruction \<Rightarrow> language_name option" where
  "instruction_language (InterpreterPrompt p) = Some (ui_language p)"
| "instruction_language (GurujiInstruction g) = Some (languageLock g)"
| "instruction_language TranslateInstruction = None"

definition language_of :: "jsstring \<Rightarrow> language_name" where
  "language_of lang = (if lang = lit ''mr'' then Marathi else English)"

definition stage_language :: "request \<Rightarrow> language_name option" where
  "stage_language q = instruction_language (systemInstruction (sent q))"

text \<open>The language item once the values \<open>ws\<close> have been written to it, in this order.\<close>

definition stored_after :: "jsstring list \<Rightarrow> jsstring option \<Rightarrow> jsstring option" where
  "stored_after ws item = (if ws = [] then item else Some (last ws))"

definition no_writes :: "turn_env \<Rightarrow> turn_env" where
  "no_writes env = env\<lparr>writes_interp := [], writes_guruji := []\<rparr>"

text \<open>An environment in which every request is answered with status 500, and what a
  request of the trace was sent to: its endpoint and the text of its last turn.\<close>

definition env500 :: turn_env where
  "env500 = sample_env (Response 500 None) (Response 500 None) (Threw None)"

definition sent_to :: "request \<Rightarrow> endpoint \<times> jsstring" where
  "sent_to q = (url q, turn_text (last (contents (sent q))))"

section \<open>The conversation window\<close>

lemma contents_buildGurujiPayload:
  "contents (buildGurujiPayload off now item msgs q) =
     map history_turn (slice_last MAX_HISTORY msgs) @ [\<lparr>turn_role = lit ''user'', turn_text = q\<rparr>]"
  by (simp add: buildGurujiPayload_def Let_def)

lemma length_slice_last: "length (slice_last n xs) = min n (length xs)"
  by (simp add: slice_last_def)

lemma last_slice_last: "xs \<noteq> [] \<Longrightarrow> 0 < n \<Longrightarrow> last (slice_last n xs) = last xs"
  by (simp add: slice_last_def)

text \<open>
  Claim C1, as stated, fails: \<^verbatim>\<open>buildGurujiPayload\<close> pushes the final user text after
  the window, so for a log of 19 messages the contents have 19 entries, not 18. The log
  here is the one \<^verbatim>\<open>insertUserMessage\<close> leaves: it ends with the user message just
  appended, and the final user text is that message (the interpreter fell back).
\<close>

theorem C1_window_length_counterexample:
  "MAX_HISTORY <
     length (replicate 18 \<lparr>role = lit ''assistant'', content = lit ''a'', tsISO = []\<rparr>
             @ [\<lparr>role = lit ''user'', content = lit ''q'', tsISO = []\<rparr>]) \<and>
   length (contents (buildGurujiPayload kolkata (grounding_at 0) None
     (replicate 18 \<lparr>role = lit ''assistant'', content = lit ''a'', tsISO = []\<rparr>
        @ [\<lparr>role = lit ''user'', content = lit ''q'', tsISO = []\<rparr>])
     (lit ''q''))) = 19 \<and>
   19 \<noteq> MAX_HISTORY"
  by (simp add: contents_buildGurujiPayload length_slice_last MAX_HISTORY_def)

text \<open>
  Claim C1, amended: for every log of more than \<open>MAX_HISTORY = 18\<close> messages the contents
  have exactly \<open>MAX_HISTORY + 1\<close> entries. The first \<open>MAX_HISTORY\<close> are the last
  \<open>MAX_HISTORY\<close> messages of the log, in order, so this window ends with the most
  recently appended message; the one entry after it is a user turn that carries the
  final user text.
\<close>

theorem C1_window_amended:
  assumes "MAX_HISTORY < length msgs"
  shows "length (contents (buildGurujiPayload off now item msgs q)) = MAX_HISTORY + 1 \<and>
         butlast (contents (buildGurujiPayload off now item msgs q)) =
           map history_turn (drop (length msgs - MAX_HISTORY) msgs) \<and>
         length (butlast (contents (buildGurujiPayload off now item msgs q))) = MAX_HISTORY \<and>
         last (butlast (contents (buildGurujiPayload off now item msgs q))) =
           history_turn (last msgs) \<and>
         last (contents (buildGurujiPayload off now item msgs q)) =
           \<lparr>turn_role = lit ''user'', turn_text = q\<rparr>"
proof -
  let ?w = "slice_last MAX_HISTORY msgs"
  have c: "contents (buildGurujiPayload off now item msgs q) =
      map history_turn ?w @ [\<lparr>turn_role = lit ''user'', turn_text = q\<rparr>]"
    by (rule contents_buildGurujiPayload)
  have len: "length ?w = MAX_HISTORY"
    using assms by (simp add: length_slice_last)
  have ne: "?w \<noteq> []"
    using len by (auto simp: MAX_HISTORY_def)
  have "msgs \<noteq> []" using assms by auto
  then have l: "last ?w = last msgs"
    by (rule last_slice_last) (simp add: MAX_HISTORY_def)
  have "last (map history_turn ?w) = history_turn (last ?w)"
    using ne by (rule last_map)
  with l have lm: "last (map history_turn ?w) = history_turn (last msgs)"
    by simp
  show ?thesis
    unfolding c using len lm by (simp add: slice_last_def)
qed

theorem C1_window_amended_witness:
  "length (contents (buildGurujiPayload kolkata (grounding_at 0) None
     (replicate 18 \<lparr>role = lit ''assistant'', content = lit ''a'', tsISO = []\<rparr>
        @ [\<lparr>role = lit ''user'', content = lit ''q'', tsISO = []\<rparr>])
     (lit ''q''))) = MAX_HISTORY + 1 \<and>
   last (butlast (contents (buildGurujiPayload kolkata (grounding_at 0) None
     (replicate 18 \<lparr>role = lit ''assistant'', content = lit ''a'', tsISO = []\<rparr>
        @ [\<lparr>role = lit ''user'', content = lit ''q'', tsISO = []\<rparr>])
     (lit ''q'')))) =
     history_turn \<lparr>role = lit ''user'', content = lit ''q'', tsISO = []\<rparr>"
  using C1_window_amended [of
      "replicate 18 \<lparr>role = lit ''assistant'', content = lit ''a'', tsISO = []\<rparr>
        @ [\<lparr>role = lit ''user'', content = lit ''q'', tsISO = []\<rparr>]"
      kolkata "grounding_at 0" None "lit ''q''"]
  by (simp add: MAX_HISTORY_def)

section \<open>Text extraction\<close>

text \<open>
  Claim C9 is not what the code does: a part that is \<^verbatim>\<open>null\<close> makes
  \<^verbatim>\<open>p.text\<close> throw inside \<^verbatim>\<open>map\<close>. Here is the run on the success body
  \<^verbatim>\<open>{"candidates":[{"content":{"parts":[null]}}]}\<close>, a response of status 200.
\<close>

theorem C9_null_part_throws:
  "geminiFetch (Response 200 (Some (reply_body [JNull]))) =
     OkResult 200 (reply_body [JNull]) (Some (reply_body [JNull])) \<and>
   extractTextFromGemini (reply_body [JNull]) = Inl TypeError"
  by (simp add: geminiFetch_def safeParseJSON_def extractTextFromGemini_def reply_body_def
      part_text_def lit_def)

text \<open>What does hold: an envelope without an array of parts gives the empty string, and
  parts that are objects whose \<^verbatim>\<open>text\<close> is a string or is missing give the
  concatenation of the texts.\<close>

lemma extract_no_parts:
  "extractTextFromGemini JNull = Inr []"
  "opt_prop (Some data) (lit ''candidates'') = None \<Longrightarrow> extractTextFromGemini data = Inr []"
  "opt_prop (opt_prop (opt_index0 (opt_prop (Some data) (lit ''candidates''))) (lit ''content''))
     (lit ''parts'') = None \<Longrightarrow> extractTextFromGemini data = Inr []"
  by (simp_all add: extractTextFromGemini_def)

lemma sequence_map_Inr:
  "(\<And>x. x \<in> set xs \<Longrightarrow> f x = Inr (g x)) \<Longrightarrow> sequence (map f xs) = Inr (map g xs)"
  by (induction xs) auto

lemma part_text_string: "part_string p = Some t \<Longrightarrow> part_text p = Inr (JStr t)"
  by (auto simp: part_string_def part_text_def split: json.splits option.splits)

lemma extract_string_parts:
  assumes "opt_prop (opt_prop (opt_index0 (opt_prop (Some data) (lit ''candidates''))) (lit ''content''))
     (lit ''parts'') = Some (JArr ps)"
    and "\<And>p. p \<in> set ps \<Longrightarrow> part_string p \<noteq> None"
  shows "extractTextFromGemini data = Inr (concat (map (\<lambda>p. the (part_string p)) ps))"
proof -
  have a: "sequence (map part_text ps) = Inr (map (\<lambda>p. JStr (the (part_string p))) ps)"
    using assms(2) by (intro sequence_map_Inr part_text_string) auto
  have b: "sequence (map (\<lambda>p. Inr (the (part_string p))) ps) =
      (Inr (map (\<lambda>p. the (part_string p)) ps) :: js_error + jsstring list)"
    by (intro sequence_map_Inr) simp
  show ?thesis
    by (simp add: extractTextFromGemini_def assms(1) a b comp_def)
qed

section \<open>The retry delay\<close>

lemma lt10_cases:
  "d < 10 \<Longrightarrow> d = 0 \<or> d = 1 \<or> d = 2 \<or> d = 3 \<or> d = 4 \<or> d = 5 \<or> d = 6 \<or> d = 7 \<or> d = 8 \<or> d = (9::nat)"
  by arith

lemma digit_char_props:
  assumes "d < 10"
  shows "is_digit (digit_char d)" "\<not> is_space (digit_char d)" "digit_char d \<noteq> 0x73"
    "digit_char d \<noteq> 0x2D" "digit_char d \<noteq> 0x2B" "uint (digit_char d) - 48 = int d"
  using lt10_cases [OF assms]
  by (auto simp: digit_char_def is_digit_def is_space_def)

lemma digits_nonempty: "digits n \<noteq> []"
  by (subst digits.simps) simp

lemma digits_all: "x \<in> set (digits n) \<Longrightarrow> is_digit x \<and> \<not> is_space x \<and> x \<noteq> 0x73 \<and> x \<noteq> 0x2D \<and> x \<noteq> 0x2B"
proof (induction n rule: digits.induct)
  case (1 n)
  show ?case
  proof (cases "n < 10")
    case True
    with "1.prems" have "x = digit_char n" by (subst (asm) digits.simps) simp
    with True show ?thesis using digit_char_props [of n] by simp
  next
    case False
    with "1.prems" have "x \<in> set (digits (n div 10)) \<or> x = digit_char (n mod 10)"
      by (subst (asm) digits.simps) auto
    then show ?thesis
    proof
      assume "x \<in> set (digits (n div 10))"
      with False "1.IH" show ?thesis by simp
    next
      assume "x = digit_char (n mod 10)"
      then show ?thesis using digit_char_props [of "n mod 10"] by simp
    qed
  qed
qed

lemma digits_value_snoc: "digits_value (ds @ [c]) = 10 * digits_value ds + (uint c - 48)"
  by (simp add: digits_value_def)

lemma digits_value_digits: "digits_value (digits n) = int n"
proof (induction n rule: digits.induct)
  case (1 n)
  show ?case
  proof (cases "n < 10")
    case True
    then show ?thesis
      by (subst digits.simps) (simp add: digits_value_def digit_char_props)
  next
    case False
    then have "digits_value (digits n) = 10 * int (n div 10) + int (n mod 10)"
      using "1.IH" by (subst digits.simps) (simp add: digits_value_snoc digit_char_props)
    then show ?thesis by (simp add: zdiv_int zmod_int)
  qed
qed

lemma takeWhile_all: "(\<And>x. x \<in> set xs \<Longrightarrow> P x) \<Longrightarrow> takeWhile P xs = xs"
  by (induction xs) auto

lemma dropWhile_none: "xs \<noteq> [] \<Longrightarrow> \<not> P (hd xs) \<Longrightarrow> dropWhile P xs = xs"
  by (cases xs) auto

lemma to_number_exact: "\<bar>x\<bar> \<le> 2 ^ 53 \<Longrightarrow> to_number x = Finite x"
  by (simp add: to_number_def)

lemma retry_time_exact:
  assumes "\<bar>sec * 1000\<bar> \<le> 2 ^ 53" and "\<bar>now + sec * 1000\<bar> \<le> 2 ^ 53"
  shows "retry_time now sec = Finite (now + sec * 1000)"
  using assms by (simp add: retry_time_def times_number_def plus_number_def to_number_exact)


lemma parseInt10_digits: "parseInt10 (digits n) = to_number (int n)"
proof -
  have ne: "digits n \<noteq> []" by (rule digits_nonempty)
  then have h: "hd (digits n) \<in> set (digits n)" by simp
  have d: "dropWhile is_space (digits n) = digits n"
    using ne digits_all [OF h] by (intro dropWhile_none) auto
  have s: "hd (digits n) \<noteq> 0x2D" "hd (digits n) \<noteq> 0x2B"
    using digits_all [OF h] by auto
  have t: "takeWhile is_digit (digits n) = digits n"
    using digits_all by (intro takeWhile_all) auto
  show ?thesis
    by (simp add: parseInt10_def d Let_def s t ne digits_value_digits)
qed

lemma replace_s_digits: "(\<And>x. x \<in> set ds \<Longrightarrow> x \<noteq> 0x73) \<Longrightarrow> replace_s (ds @ lit ''s'') = ds"
  by (induction ds) (auto simp: lit_def)

lemma endsWith_s_snoc: "endsWith_s (ds @ lit ''s'')"
  by (simp add: endsWith_s_def lit_def)

lemma parse_seconds:
  assumes "retryDelay_of obj = Inr (Some (JStr (digits n @ lit ''s'')))"
    and "int n \<le> 2 ^ 53"
  shows "parseRetryDelaySeconds (Some obj) = Some (int n)"
proof -
  have r: "replace_s (digits n @ lit ''s'') = digits n"
    using digits_all by (intro replace_s_digits) auto
  have t: "to_number (int n) = Finite (int n)"
    using assms(2) by (intro to_number_exact) simp
  show ?thesis
    unfolding parseRetryDelaySeconds_def
    by (simp add: assms(1) endsWith_s_snoc r digits_nonempty parseInt10_digits t isFinite_def
        Let_def)
qed

section \<open>The send flow, step by step\<close>

lemma showToast_fields [simp]:
  "toasts (showToast m a) = toasts a @ [m]"
  "fetches (showToast m a) = fetches a"
  "pendingRetry (showToast m a) = pendingRetry a"
  "sessions (showToast m a) = sessions a"
  "language_item (showToast m a) = language_item a"
  "api_key_item (showToast m a) = api_key_item a"
  "activeSessionId (showToast m a) = activeSessionId a"
  "onLine (showToast m a) = onLine a"
  by (simp_all add: showToast_def)

lemma do_fetch_fields [simp]:
  "toasts (do_fetch r a) = toasts a"
  "fetches (do_fetch r a) = fetches a @ [r]"
  "pendingRetry (do_fetch r a) = pendingRetry a"
  "sessions (do_fetch r a) = sessions a"
  "language_item (do_fetch r a) = language_item a"
  "api_key_item (do_fetch r a) = api_key_item a"
  "activeSessionId (do_fetch r a) = activeSessionId a"
  "onLine (do_fetch r a) = onLine a"
  by (simp_all add: do_fetch_def)

lemma waited_fields [simp]:
  "toasts (waited ws a) = toasts a"
  "fetches (waited ws a) = fetches a"
  "pendingRetry (waited ws a) = pendingRetry a"
  "sessions (waited ws a) = sessions a"
  "api_key_item (waited ws a) = api_key_item a"
  "activeSessionId (waited ws a) = activeSessionId a"
  "onLine (waited ws a) = onLine a"
  "language_item (waited ws a) = (if ws = [] then language_item a else Some (last ws))"
  by (simp_all add: waited_def)

lemma report_failure_fields [simp]:
  "fetches (report_failure env s raw st txt a) = fetches a"
  "sessions (report_failure env s raw st txt a) = sessions a"
  "language_item (report_failure env s raw st txt a) = language_item a"
  "api_key_item (report_failure env s raw st txt a) = api_key_item a"
  "activeSessionId (report_failure env s raw st txt a) = activeSessionId a"
  "onLine (report_failure env s raw st txt a) = onLine a"
  by (simp_all add: report_failure_def split: option.splits)

lemma snd_interpretUserQuery:
  "snd (interpretUserQuery env a raw (getApiKey (api_key_item a))) =
     waited (writes_interp env) (do_fetch (interpreter_request env a raw) a)"
  by (simp add: interpretUserQuery_def interpreter_request_def Let_def
      split: fetch_result.splits sum.splits)

lemma fst_interpretUserQuery_fallback:
  "no_usable_text (out_interp env) \<Longrightarrow> fst (interpretUserQuery env a raw key) = Inr raw"
  by (simp add: interpretUserQuery_def no_usable_text_def Let_def
      split: fetch_result.splits sum.splits)

lemma callGuruji_not_ok:
  assumes "getApiKey (api_key_item a) \<noteq> []" and "onLine a"
    and "fst (interpretUserQuery env a raw (getApiKey (api_key_item a))) = Inr q"
    and "geminiFetch (out_guruji env) = FailResult st txt"
  shows "callGuruji env a s raw =
     (None, report_failure env s raw st txt (at_answer env a s raw q), s)"
proof -
  obtain r a1 where i: "interpretUserQuery env a raw (getApiKey (api_key_item a)) = (r, a1)"
    by (cases "interpretUserQuery env a raw (getApiKey (api_key_item a))")
  have r: "r = Inr q" using assms(3) i by simp
  have a1: "a1 = waited (writes_interp env) (do_fetch (interpreter_request env a raw) a)"
    using snd_interpretUserQuery [of env a raw] i by simp
  show ?thesis
    using assms(1,2,4)
    by (simp add: callGuruji_def Let_def i r a1 at_answer_def guruji_request_def)
qed

lemma callGuruji_ok:
  assumes "getApiKey (api_key_item a) \<noteq> []" and "onLine a"
    and "fst (interpretUserQuery env a raw (getApiKey (api_key_item a))) = Inr q"
    and "geminiFetch (out_guruji env) = OkResult st js txt"
    and "extractTextFromGemini js = Inr t"
  shows "callGuruji env a s raw =
     (case translateToMarathiIfNeeded env (at_answer env a s raw q)
             (if trim t = [] then lit ''[No response]'' else trim t) (getApiKey (api_key_item a)) of
        (Inl e, a3) \<Rightarrow> (Some e, a3, s)
      | (Inr reply, a3) \<Rightarrow>
          (None, a3\<lparr>pendingRetry := None\<rparr>,
           s\<lparr>messages := messages s @
                [\<lparr>role = lit ''assistant'', content = reply, tsISO = ts_assistant env\<rparr>],
             updatedAtISO := ts_updated env\<rparr>))"
proof -
  obtain r a1 where i: "interpretUserQuery env a raw (getApiKey (api_key_item a)) = (r, a1)"
    by (cases "interpretUserQuery env a raw (getApiKey (api_key_item a))")
  have r: "r = Inr q" using assms(3) i by simp
  have a1: "a1 = waited (writes_interp env) (do_fetch (interpreter_request env a raw) a)"
    using snd_interpretUserQuery [of env a raw] i by simp
  show ?thesis
    using assms(1,2,4,5)
    by (simp add: callGuruji_def Let_def i r a1 at_answer_def guruji_request_def)
qed


lemma fetches_at_answer [simp]:
  "fetches (at_answer env a s raw q) =
     fetches a @ [interpreter_request env a raw, guruji_request env a s q]"
  by (simp add: at_answer_def)

lemma at_answer_fields [simp]:
  "toasts (at_answer env a s raw q) = toasts a"
  "pendingRetry (at_answer env a s raw q) = pendingRetry a"
  "sessions (at_answer env a s raw q) = sessions a"
  "api_key_item (at_answer env a s raw q) = api_key_item a"
  "activeSessionId (at_answer env a s raw q) = activeSessionId a"
  "onLine (at_answer env a s raw q) = onLine a"
  by (simp_all add: at_answer_def)




section \<open>The interpreter stage\<close>



section \<open>Rate limiting\<close>

text \<open>Which detail the lookup reads: the first one whose type names RetryInfo, when the
  details before it are neither \<^verbatim>\<open>null\<close> nor of a type that makes the callback throw.\<close>

lemma find_detail_first:
  assumes "\<forall>x\<in>set pre. is_retry_info x = Inr False" and "is_retry_info d = Inr True"
  shows "find_detail (pre @ d # post) = Inr (Some d)"
  using assms by (induction pre) simp_all

lemma retryDelay_of_first_retry_info:
  assumes "opt_prop (opt_prop (Some obj) (lit ''error'')) (lit ''details'') =
      Some (JArr (pre @ d # post))"
    and "\<forall>x\<in>set pre. is_retry_info x = Inr False" and "is_retry_info d = Inr True"
  shows "retryDelay_of obj = Inr (opt_prop (Some d) (lit ''retryDelay''))"
  by (simp add: retryDelay_of_def assms(1) find_detail_first [OF assms(2,3)])

lemma geminiFetch_429: "geminiFetch (Response 429 b) = FailResult 429 b"
  by (simp add: geminiFetch_def)

lemma out_guruji_irrelevant [simp]:
  "interpretUserQuery (env\<lparr>out_guruji := x\<rparr>) a raw key = interpretUserQuery env a raw key"
  "at_answer (env\<lparr>out_guruji := x\<rparr>) a s raw q = at_answer env a s raw q"
  "report_failure (env\<lparr>out_guruji := x\<rparr>) s raw st b a' = report_failure env s raw st b a'"
  by (simp_all add: interpretUserQuery_def at_answer_def guruji_request_def
      interpreter_request_def report_failure_def split: option.splits)

lemma report_failure_generic:
  "parseRetryDelaySeconds b = None \<or> parseRetryDelaySeconds b = Some 0 \<Longrightarrow>
   report_failure env s raw 429 b a = showToast RateLimitGeneric a"
  by (auto simp: report_failure_def)

lemma report_failure_token:
  "parseRetryDelaySeconds b = Some sec \<Longrightarrow> sec \<noteq> 0 \<Longrightarrow>
   report_failure env s raw 429 b a =
     (showToast (RateLimitRetryAfter sec) a)
       \<lparr>pendingRetry := Some \<lparr>sessionId = sid s, lastUserText = raw,
          retryAtMs = retry_time (clock_retry env) sec\<rparr>\<rparr>"
  by (simp add: report_failure_def)

lemma digits_0: "digits 0 @ lit ''s'' = lit ''0s''"
  by (simp add: digits.simps digit_char_def lit_def)

text \<open>
  Claim C10: a 429 whose error body carries the retry delay \<^verbatim>\<open>0s\<close> (the delay the
  code's lookup finds, \<open>retryDelay_of\<close>) parses to 0 seconds, and \<^verbatim>\<open>callGuruji\<close> then
  does exactly what it does for a 429 body \<open>other\<close> with no delay at all: it shows the
  generic rate-limit toast, leaves the pending retry as it was, and appends nothing to the
  session. The third hypothesis says that the turn reached the Generating stage.
\<close>

theorem C10_zero_delay_no_token:
  assumes "getApiKey (api_key_item a) \<noteq> []" and "onLine a"
    and "fst (interpretUserQuery env a raw (getApiKey (api_key_item a))) = Inr q"
    and "out_guruji env = Response 429 (Some obj)"
    and "retryDelay_of obj = Inr (Some (JStr (lit ''0s'')))"
    and "parseRetryDelaySeconds other = None"
  shows "parseRetryDelaySeconds (Some obj) = Some 0 \<and>
         callGuruji env a s raw = callGuruji (env\<lparr>out_guruji := Response 429 other\<rparr>) a s raw \<and>
         pendingRetry (fst (snd (callGuruji env a s raw))) = pendingRetry a \<and>
         toasts (fst (snd (callGuruji env a s raw))) = toasts a @ [RateLimitGeneric] \<and>
         snd (snd (callGuruji env a s raw)) = s"
proof -
  have "retryDelay_of obj = Inr (Some (JStr (digits 0 @ lit ''s'')))"
    using assms(5) by (simp only: digits_0)
  then have p: "parseRetryDelaySeconds (Some obj) = Some 0"
    by (simp add: parse_seconds)
  have g: "geminiFetch (out_guruji env) = FailResult 429 (Some obj)"
    by (simp add: assms(4) geminiFetch_429)
  have c: "callGuruji env a s raw = (None, showToast RateLimitGeneric (at_answer env a s raw q), s)"
    using callGuruji_not_ok [OF assms(1,2,3) g] p by (simp add: report_failure_generic)
  let ?env = "env\<lparr>out_guruji := Response 429 other\<rparr>"
  have g': "geminiFetch (out_guruji ?env) = FailResult 429 other"
    by (simp add: geminiFetch_429)
  have i': "fst (interpretUserQuery ?env a raw (getApiKey (api_key_item a))) = Inr q"
    using assms(3) by simp
  have c': "callGuruji ?env a s raw = (None, showToast RateLimitGeneric (at_answer env a s raw q), s)"
    using callGuruji_not_ok [OF assms(1,2) i' g'] assms(6) by (simp add: report_failure_generic)
  show ?thesis
    using p c c' by simp
qed


lemma retryDelay_of_body: "retryDelay_of (retry_info_body d) = Inr (Some (JStr d))"
  by (simp add: retryDelay_of_def retry_info_body_def lit_def)

lemma sample_key: "getApiKey (api_key_item sample_app) \<noteq> []"
  by (simp add: getApiKey_def sample_app_def trim_def lit_def is_space_def)

lemma sample_online: "onLine sample_app"
  by (simp add: sample_app_def)

lemma sample_interp_500:
  "fst (interpretUserQuery (sample_env (Response 500 None) o2 o3) a raw key) = Inr raw"
  by (rule fst_interpretUserQuery_fallback)
    (simp add: no_usable_text_def sample_env_def geminiFetch_def)

lemma sample_out_guruji: "out_guruji (sample_env o1 o2 o3) = o2"
  by (simp add: sample_env_def)

theorem C10_zero_delay_no_token_witness:
  "getApiKey (api_key_item sample_app) \<noteq> [] \<and>
   onLine sample_app \<and>
   out_guruji (sample_env (Response 500 None)
       (Response 429 (Some (retry_info_body (lit ''0s'')))) (Threw None)) =
     Response 429 (Some (retry_info_body (lit ''0s''))) \<and>
   retryDelay_of (retry_info_body (lit ''0s'')) = Inr (Some (JStr (lit ''0s''))) \<and>
   parseRetryDelaySeconds (Some (JObj [])) = None \<and>
   parseRetryDelaySeconds (Some (retry_info_body (lit ''0s''))) = Some 0 \<and>
   callGuruji (sample_env (Response 500 None)
       (Response 429 (Some (retry_info_body (lit ''0s'')))) (Threw None))
     sample_app sample_session (lit ''udya agnivas'') =
   callGuruji ((sample_env (Response 500 None)
       (Response 429 (Some (retry_info_body (lit ''0s'')))) (Threw None))
         \<lparr>out_guruji := Response 429 (Some (JObj []))\<rparr>)
     sample_app sample_session (lit ''udya agnivas'') \<and>
   pendingRetry (fst (snd (callGuruji (sample_env (Response 500 None)
       (Response 429 (Some (retry_info_body (lit ''0s'')))) (Threw None))
     sample_app sample_session (lit ''udya agnivas'')))) = pendingRetry sample_app \<and>
   toasts (fst (snd (callGuruji (sample_env (Response 500 None)
       (Response 429 (Some (retry_info_body (lit ''0s'')))) (Threw None))
     sample_app sample_session (lit ''udya agnivas'')))) = toasts sample_app @ [RateLimitGeneric] \<and>
   snd (snd (callGuruji (sample_env (Response 500 None)
       (Response 429 (Some (retry_info_body (lit ''0s'')))) (Threw None))
     sample_app sample_session (lit ''udya agnivas''))) = sample_session"
proof -
  have other: "parseRetryDelaySeconds (Some (JObj [])) = None"
    by (simp add: parseRetryDelaySeconds_def retryDelay_of_def)
  show ?thesis
    by (rule conjI [OF sample_key conjI [OF sample_online conjI [OF sample_out_guruji
          conjI [OF retryDelay_of_body conjI [OF other
            C10_zero_delay_no_token [OF sample_key sample_online sample_interp_500
              sample_out_guruji retryDelay_of_body other]]]]]])
qed

lemma other_detail_scan: "other_detail x \<Longrightarrow> is_retry_info x = Inr False"
  by (cases x) (auto simp: other_detail_def split: option.splits json.splits)

lemma retry_info_detail_scan:
  assumes "retry_info_detail delay d"
  shows "is_retry_info d = Inr True"
    and "opt_prop (Some d) (lit ''retryDelay'') = Some (JStr delay)"
  using assms
  by (cases d; auto simp: retry_info_detail_def split: option.splits json.splits)+

lemma error_details_lookup:
  "error_details obj = Some ds \<Longrightarrow>
   opt_prop (opt_prop (Some obj) (lit ''error'')) (lit ''details'') = Some (JArr ds)"
  by (cases obj) (auto simp: error_details_def split: option.splits json.splits)

lemma retryDelay_of_details:
  assumes "error_details obj = Some (pre @ d # post)"
    and "\<forall>x\<in>set pre. other_detail x" and "retry_info_detail delay d"
  shows "retryDelay_of obj = Inr (Some (JStr delay))"
proof -
  have "\<forall>x\<in>set pre. is_retry_info x = Inr False"
    using assms(2) by (simp add: other_detail_scan)
  from retryDelay_of_first_retry_info [OF error_details_lookup [OF assms(1)] this
      retry_info_detail_scan(1) [OF assms(3)]]
  show ?thesis
    by (simp only: retry_info_detail_scan(2) [OF assms(3)])
qed

lemma find_detail_throws:
  assumes "\<forall>x\<in>set pre. is_retry_info x = Inr False" and "is_retry_info d = Inl e"
  shows "find_detail (pre @ d # post) = Inl e"
  using assms by (induction pre) simp_all

lemma retryDelay_of_null_detail:
  assumes "error_details obj = Some (pre @ JNull # post)"
    and "\<forall>x\<in>set pre. other_detail x"
  shows "parseRetryDelaySeconds (Some obj) = None"
proof -
  have "\<forall>x\<in>set pre. is_retry_info x = Inr False"
    using assms(2) by (simp add: other_detail_scan)
  then have "find_detail (pre @ JNull # post) = Inl TypeError"
    by (rule find_detail_throws) simp
  then have "retryDelay_of obj = Inl TypeError"
    by (simp add: retryDelay_of_def error_details_lookup [OF assms(1)])
  then show ?thesis
    by (simp add: parseRetryDelaySeconds_def)
qed

text \<open>
  Claim C2, amended. The Generating call is answered with status 429 and a body that
  parses as JSON, with an array under \<^verbatim>\<open>error.details\<close>. The entries \<open>pre\<close> at the
  front of the array are objects whose \<^verbatim>\<open>@type\<close> is absent or a string that does not
  contain \<^verbatim>\<open>RetryInfo\<close>, and \<open>d\<close> is the entry after them.
  \<^item> When \<open>d\<close> is a RetryInfo detail (an object whose \<^verbatim>\<open>@type\<close> is a string
    containing \<^verbatim>\<open>RetryInfo\<close>) with the retry delay \<^verbatim>\<open><N>s\<close>, \<open>N\<close> written in
    decimal and at least 1, and the time \<open>t\<close> that \<^verbatim>\<open>Date.now()\<close> returns is not
    negative with \<open>t + 1000 * N\<close> at most \<open>2 ^ 53\<close>, where the arithmetic of JavaScript is
    exact: the delay parses to \<open>N\<close>, and \<^verbatim>\<open>callGuruji\<close> ends without exception, sets
    the pending retry to the session, the raw user text and the time \<open>t + 1000 * N\<close>,
    reports the retry delay, and returns the session unchanged: no assistant message.
  \<^item> When \<open>d\<close> is \<^verbatim>\<open>null\<close>, the scan of the details throws; the exception is caught,
    no delay is found, and \<^verbatim>\<open>callGuruji\<close> leaves the pending retry as it was and
    shows the generic rate-limit toast, whatever the entries after \<open>d\<close> are.
\<close>

theorem C2_retry_token_amended:
  assumes "getApiKey (api_key_item a) \<noteq> []" and "onLine a"
    and "fst (interpretUserQuery env a raw (getApiKey (api_key_item a))) = Inr q"
    and "out_guruji env = Response 429 (Some obj)"
    and "error_details obj = Some (pre @ d # post)"
    and "\<forall>x\<in>set pre. other_detail x"
  shows "(retry_info_detail (digits n @ lit ''s'') d \<and> 1 \<le> n \<and>
            0 \<le> clock_retry env \<and> clock_retry env + int n * 1000 \<le> 2 ^ 53 \<longrightarrow>
          parseRetryDelaySeconds (Some obj) = Some (int n) \<and>
          fst (callGuruji env a s raw) = None \<and>
          pendingRetry (fst (snd (callGuruji env a s raw))) =
            Some \<lparr>sessionId = sid s, lastUserText = raw,
                  retryAtMs = Finite (clock_retry env + int n * 1000)\<rparr> \<and>
          toasts (fst (snd (callGuruji env a s raw))) =
            toasts a @ [RateLimitRetryAfter (int n)] \<and>
          snd (snd (callGuruji env a s raw)) = s) \<and>
         (d = JNull \<longrightarrow>
          parseRetryDelaySeconds (Some obj) = None \<and>
          fst (callGuruji env a s raw) = None \<and>
          pendingRetry (fst (snd (callGuruji env a s raw))) = pendingRetry a \<and>
          toasts (fst (snd (callGuruji env a s raw))) = toasts a @ [RateLimitGeneric] \<and>
          snd (snd (callGuruji env a s raw)) = s)"
proof -
  have g: "geminiFetch (out_guruji env) = FailResult 429 (Some obj)"
    by (simp add: assms(4) geminiFetch_429)
  note cg = callGuruji_not_ok [OF assms(1,2,3) g]
  have c1: "parseRetryDelaySeconds (Some obj) = Some (int n) \<and>
          fst (callGuruji env a s raw) = None \<and>
          pendingRetry (fst (snd (callGuruji env a s raw))) =
            Some \<lparr>sessionId = sid s, lastUserText = raw,
                  retryAtMs = Finite (clock_retry env + int n * 1000)\<rparr> \<and>
          toasts (fst (snd (callGuruji env a s raw))) =
            toasts a @ [RateLimitRetryAfter (int n)] \<and>
          snd (snd (callGuruji env a s raw)) = s"
    if d: "retry_info_detail (digits n @ lit ''s'') d" and n: "1 \<le> n"
      and c: "0 \<le> clock_retry env" "clock_retry env + int n * 1000 \<le> 2 ^ 53"
  proof -
    have r: "retryDelay_of obj = Inr (Some (JStr (digits n @ lit ''s'')))"
      using assms(5,6) d by (rule retryDelay_of_details)
    have m: "int n * 1000 \<le> 2 ^ 53"
      using c by linarith
    moreover have "int n \<le> int n * 1000"
      by simp
    ultimately have "int n \<le> 2 ^ 53"
      by linarith
    then have p: "parseRetryDelaySeconds (Some obj) = Some (int n)"
      using r by (rule parse_seconds [rotated])
    have nz: "int n \<noteq> 0"
      using n by simp
    have t: "retry_time (clock_retry env) (int n) = Finite (clock_retry env + int n * 1000)"
      using m c by (intro retry_time_exact) simp_all
    show ?thesis
      using p by (simp add: cg report_failure_token [OF p nz] t)
  qed
  have c2: "parseRetryDelaySeconds (Some obj) = None \<and>
          fst (callGuruji env a s raw) = None \<and>
          pendingRetry (fst (snd (callGuruji env a s raw))) = pendingRetry a \<and>
          toasts (fst (snd (callGuruji env a s raw))) = toasts a @ [RateLimitGeneric] \<and>
          snd (snd (callGuruji env a s raw)) = s"
    if "d = JNull"
  proof -
    have p: "parseRetryDelaySeconds (Some obj) = None"
      using assms(5,6) unfolding that by (rule retryDelay_of_null_detail)
    show ?thesis
      using p by (simp add: cg report_failure_generic)
  qed
  show ?thesis
    using c1 c2 by blast
qed

lemma digits_30: "digits 30 @ lit ''s'' = lit ''30s''"
  by (simp add: digits.simps digit_char_def lit_def)

lemma sample_clock_retry: "clock_retry (sample_env o1 o2 o3) = 1770000002000"
  by (simp add: sample_env_def)

lemma gemini_429_body_shape:
  "error_details (gemini_429_body delay) =
     Some ([quota_failure_detail, help_detail] @ retry_detail delay # [])"
  "\<forall>x\<in>set [quota_failure_detail, help_detail]. other_detail x"
  "retry_info_detail delay (retry_detail delay)"
  by (simp_all add: error_details_def gemini_429_body_def other_detail_def
      quota_failure_detail_def help_detail_def retry_info_detail_def retry_detail_def lit_def)

lemma null_detail_body_shape:
  "error_details (null_detail_body delay) =
     Some ([quota_failure_detail] @ JNull # [retry_detail delay])"
  "\<forall>x\<in>set [quota_failure_detail]. other_detail x"
  by (simp_all add: error_details_def null_detail_body_def other_detail_def
      quota_failure_detail_def lit_def)

text \<open>
  The theorem at the body that the Gemini API sends, whose RetryInfo detail with the
  delay \<^verbatim>\<open>30s\<close> comes after two details of other types, and at a body with
  \<^verbatim>\<open>null\<close> before the RetryInfo detail.
\<close>

theorem C2_retry_token_amended_witness:
  "error_details (gemini_429_body (digits 30 @ lit ''s'')) =
     Some ([quota_failure_detail, help_detail] @ retry_detail (digits 30 @ lit ''s'') # []) \<and>
   other_detail quota_failure_detail \<and> other_detail help_detail \<and>
   retry_info_detail (digits 30 @ lit ''s'') (retry_detail (digits 30 @ lit ''s'')) \<and>
   digits 30 @ lit ''s'' = lit ''30s'' \<and>
   parseRetryDelaySeconds (Some (gemini_429_body (digits 30 @ lit ''s''))) = Some 30 \<and>
   fst (callGuruji (sample_env (Response 500 None)
       (Response 429 (Some (gemini_429_body (digits 30 @ lit ''s'')))) (Threw None))
     sample_app sample_session (lit ''udya agnivas'')) = None \<and>
   pendingRetry (fst (snd (callGuruji (sample_env (Response 500 None)
       (Response 429 (Some (gemini_429_body (digits 30 @ lit ''s'')))) (Threw None))
     sample_app sample_session (lit ''udya agnivas'')))) =
     Some \<lparr>sessionId = lit ''s1'', lastUserText = lit ''udya agnivas'',
           retryAtMs = Finite 1770000032000\<rparr> \<and>
   toasts (fst (snd (callGuruji (sample_env (Response 500 None)
       (Response 429 (Some (gemini_429_body (digits 30 @ lit ''s'')))) (Threw None))
     sample_app sample_session (lit ''udya agnivas'')))) = [RateLimitRetryAfter 30] \<and>
   snd (snd (callGuruji (sample_env (Response 500 None)
       (Response 429 (Some (gemini_429_body (digits 30 @ lit ''s'')))) (Threw None))
     sample_app sample_session (lit ''udya agnivas''))) = sample_session \<and>
   error_details (null_detail_body (lit ''30s'')) =
     Some ([quota_failure_detail] @ JNull # [retry_detail (lit ''30s'')]) \<and>
   parseRetryDelaySeconds (Some (null_detail_body (lit ''30s''))) = None \<and>
   pendingRetry (fst (snd (callGuruji (sample_env (Response 500 None)
       (Response 429 (Some (null_detail_body (lit ''30s'')))) (Threw None))
     sample_app sample_session (lit ''udya agnivas'')))) = None \<and>
   toasts (fst (snd (callGuruji (sample_env (Response 500 None)
       (Response 429 (Some (null_detail_body (lit ''30s'')))) (Threw None))
     sample_app sample_session (lit ''udya agnivas'')))) = [RateLimitGeneric]"
proof -
  let ?env = "sample_env (Response 500 None)
       (Response 429 (Some (gemini_429_body (digits 30 @ lit ''s'')))) (Threw None)"
  have c: "0 \<le> clock_retry ?env" "clock_retry ?env + int 30 * 1000 \<le> 2 ^ 53"
    by (simp_all add: sample_clock_retry)
  have n: "1 \<le> (30::nat)" by simp
  have t: "toasts sample_app = []" "pendingRetry sample_app = None"
    by (simp_all add: sample_app_def)
  note g = gemini_429_body_shape(1) [of "digits 30 @ lit ''s''"] gemini_429_body_shape(2)
  note g3 = gemini_429_body_shape(3) [of "digits 30 @ lit ''s''"]
  note nb = null_detail_body_shape(1) [of "lit ''30s''"] null_detail_body_shape(2)
  have A: "parseRetryDelaySeconds (Some (gemini_429_body (digits 30 @ lit ''s''))) = Some 30 \<and>
   fst (callGuruji ?env sample_app sample_session (lit ''udya agnivas'')) = None \<and>
   pendingRetry (fst (snd (callGuruji ?env sample_app sample_session (lit ''udya agnivas'')))) =
     Some \<lparr>sessionId = lit ''s1'', lastUserText = lit ''udya agnivas'',
           retryAtMs = Finite 1770000032000\<rparr> \<and>
   toasts (fst (snd (callGuruji ?env sample_app sample_session (lit ''udya agnivas'')))) =
     [RateLimitRetryAfter 30] \<and>
   snd (snd (callGuruji ?env sample_app sample_session (lit ''udya agnivas''))) = sample_session"
    using C2_retry_token_amended [where s = sample_session and n = 30,
        OF sample_key sample_online sample_interp_500 sample_out_guruji g] g3 n c
    by (simp add: sample_clock_retry sample_session_def t)
  have B: "parseRetryDelaySeconds (Some (null_detail_body (lit ''30s''))) = None \<and>
   pendingRetry (fst (snd (callGuruji (sample_env (Response 500 None)
       (Response 429 (Some (null_detail_body (lit ''30s'')))) (Threw None))
     sample_app sample_session (lit ''udya agnivas'')))) = None \<and>
   toasts (fst (snd (callGuruji (sample_env (Response 500 None)
       (Response 429 (Some (null_detail_body (lit ''30s'')))) (Threw None))
     sample_app sample_session (lit ''udya agnivas'')))) = [RateLimitGeneric]"
    using C2_retry_token_amended [where s = sample_session,
        OF sample_key sample_online sample_interp_500 sample_out_guruji nb]
    by (simp add: t)
  show ?thesis
    using g g3 digits_30 A nb B
    by simp
qed

text \<open>
  Claim C2, as stated for every \<^verbatim>\<open><N>s\<close>, fails at \<open>N = 0\<close>: for the specification's
  429 body with the delay \<^verbatim>\<open>0s\<close> no pending retry is set (\<^verbatim>\<open>if (sec)\<close> is false
  for 0).
\<close>

theorem C2_zero_delay_counterexample:
  "out_guruji (sample_env (Response 500 None)
       (Response 429 (Some (retry_info_body (lit ''0s'')))) (Threw None)) =
     Response 429 (Some (retry_info_body (lit ''0s''))) \<and>
   pendingRetry (fst (snd (callGuruji (sample_env (Response 500 None)
       (Response 429 (Some (retry_info_body (lit ''0s'')))) (Threw None))
     sample_app sample_session (lit ''udya agnivas'')))) = None"
proof -
  have p: "parseRetryDelaySeconds (Some (retry_info_body (lit ''0s''))) = Some 0"
    using parse_seconds [of "retry_info_body (lit ''0s'')" 0]
    by (simp add: retryDelay_of_body digits_0)
  have g: "geminiFetch (out_guruji (sample_env (Response 500 None)
       (Response 429 (Some (retry_info_body (lit ''0s'')))) (Threw None))) =
       FailResult 429 (Some (retry_info_body (lit ''0s'')))"
    by (simp add: sample_out_guruji geminiFetch_429)
  show ?thesis
    using p
    by (simp add: callGuruji_not_ok [OF sample_key sample_online sample_interp_500 g]
        report_failure_generic sample_out_guruji) (simp add: sample_app_def)
qed

section \<open>The Marathi enforcement\<close>

lemma language_item_at_answer:
  "language_item (at_answer env a s raw q) =
     language_item (waited (writes_guruji env) (waited (writes_interp env) a))"
  by (simp add: at_answer_def)

lemma translate_fallback:
  "no_usable_text (out_translate env) \<Longrightarrow>
   fst (translateToMarathiIfNeeded env a reply key) = Inr reply"
  by (simp add: translateToMarathiIfNeeded_def no_usable_text_def Let_def
      split: fetch_result.splits sum.splits)

lemma translate_no_call:
  "\<not> (getLanguage (language_item a) = lit ''mr'' \<and> looksEnglish reply) \<Longrightarrow>
   translateToMarathiIfNeeded env a reply key = (Inr reply, a)"
  by (auto simp: translateToMarathiIfNeeded_def Let_def)

lemma snd_translate_call:
  "getLanguage (language_item a) = lit ''mr'' \<Longrightarrow> looksEnglish reply \<Longrightarrow>
   snd (translateToMarathiIfNeeded env a reply (getApiKey (api_key_item a'))) =
     do_fetch (translate_request a' reply) a"
  by (simp add: translateToMarathiIfNeeded_def translate_request_def Let_def
      split: fetch_result.splits sum.splits)

text \<open>
  Claim C5, amended to the threshold of the code, more than 40 Latin letters: when Guruji's
  answer arrives with a reply, the language mode read then is Marathi, and the reply has
  more than 40 Latin letters and fewer than 10 Devanagari code units, the turn makes
  exactly one further request, the translation call, whose only content is the reply; and
  when that call gives no text to use (it is not ok, or its output is empty), the turn ends
  without exception and the assistant message stored is the untranslated reply.
\<close>

theorem C5_translation_amended:
  assumes "getApiKey (api_key_item a) \<noteq> []" and "onLine a"
    and "fst (interpretUserQuery env a raw (getApiKey (api_key_item a))) = Inr q"
    and "geminiFetch (out_guruji env) = OkResult st js bd"
    and "extractTextFromGemini js = Inr t"
    and "reply = (if trim t = [] then lit ''[No response]'' else trim t)"
    and "getLanguage (language_item (waited (writes_guruji env) (waited (writes_interp env) a))) =
           lit ''mr''"
    and "40 < latinCount reply" and "devanagariCount reply < 10"
  shows "fetches (fst (snd (callGuruji env a s raw))) =
           fetches a @ [interpreter_request env a raw, guruji_request env a s q,
                        translate_request a reply] \<and>
         contents (sent (translate_request a reply)) =
           [\<lparr>turn_role = lit ''user'', turn_text = reply\<rparr>] \<and>
         (no_usable_text (out_translate env) \<longrightarrow>
            fst (callGuruji env a s raw) = None \<and>
            messages (snd (snd (callGuruji env a s raw))) =
              messages s @ [\<lparr>role = lit ''assistant'', content = reply,
                              tsISO = ts_assistant env\<rparr>])"
proof -
  let ?a2 = "at_answer env a s raw q"
  let ?k = "getApiKey (api_key_item a)"
  have mr: "getLanguage (language_item ?a2) = lit ''mr''"
    using assms(7) by (simp only: language_item_at_answer)
  have le: "looksEnglish reply"
    using assms(8,9) by (simp add: looksEnglish_def)
  obtain x a3 where tr: "translateToMarathiIfNeeded env ?a2 reply ?k = (x, a3)"
    by (cases "translateToMarathiIfNeeded env ?a2 reply ?k")
  have a3: "a3 = do_fetch (translate_request a reply) ?a2"
    using snd_translate_call [OF mr le, of env a] tr by simp
  have cg: "callGuruji env a s raw =
      (case (x, a3) of
         (Inl e, a3) \<Rightarrow> (Some e, a3, s)
       | (Inr r, a3) \<Rightarrow>
           (None, a3\<lparr>pendingRetry := None\<rparr>,
            s\<lparr>messages := messages s @
                 [\<lparr>role = lit ''assistant'', content = r, tsISO = ts_assistant env\<rparr>],
              updatedAtISO := ts_updated env\<rparr>))"
    using callGuruji_ok [OF assms(1-5), of s] tr by (simp only: assms(6) [symmetric])
  have f: "fetches (fst (snd (callGuruji env a s raw))) =
           fetches a @ [interpreter_request env a raw, guruji_request env a s q,
                        translate_request a reply]"
    by (cases x) (simp_all add: cg a3)
  have c: "contents (sent (translate_request a reply)) =
           [\<lparr>turn_role = lit ''user'', turn_text = reply\<rparr>]"
    by (simp add: translate_request_def translate_payload_def)
  have n: "fst (callGuruji env a s raw) = None \<and>
            messages (snd (snd (callGuruji env a s raw))) =
              messages s @ [\<lparr>role = lit ''assistant'', content = reply,
                              tsISO = ts_assistant env\<rparr>]"
    if "no_usable_text (out_translate env)"
  proof -
    have "x = Inr reply"
      using translate_fallback [OF that, of ?a2 reply ?k] tr by simp
    then show ?thesis by (simp add: cg)
  qed
  show ?thesis
    using f c n by blast
qed


lemma geminiFetch_200: "geminiFetch (Response 200 (Some j)) = OkResult 200 j (Some j)"
  by (simp add: geminiFetch_def safeParseJSON_def)

lemma extract_one_part:
  "t \<noteq> [] \<Longrightarrow> extractTextFromGemini (reply_body [text_part t]) = Inr t"
  by (simp add: extractTextFromGemini_def reply_body_def text_part_def part_text_def lit_def)

lemma english_reply_facts:
  "english_reply \<noteq> []" "trim english_reply = english_reply"
  "40 < latinCount english_reply" "devanagariCount english_reply < 10"
  by code_simp+

lemma forty_letter_reply_facts:
  "forty_letter_reply \<noteq> []" "trim forty_letter_reply = forty_letter_reply"
  "latinCount forty_letter_reply = 40" "devanagariCount forty_letter_reply = 0"
  by code_simp+

lemma sample_language: "getLanguage (language_item sample_app) = lit ''mr''"
  by (simp add: sample_app_def getLanguage_def lit_def)

lemma sample_writes:
  "writes_interp (sample_env o1 o2 o3) = []" "writes_guruji (sample_env o1 o2 o3) = []"
  "out_translate (sample_env o1 o2 o3) = o3" "ts_assistant (sample_env o1 o2 o3) = lit ''t1''"
  by (simp_all add: sample_env_def)

theorem C5_translation_amended_witness:
  "getLanguage (language_item (waited (writes_guruji
       (sample_env (Response 500 None) (Response 200 (Some (reply_body [text_part english_reply])))
          (Response 500 None)))
     (waited (writes_interp
       (sample_env (Response 500 None) (Response 200 (Some (reply_body [text_part english_reply])))
          (Response 500 None))) sample_app))) = lit ''mr'' \<and>
   40 < latinCount english_reply \<and> devanagariCount english_reply < 10 \<and>
   no_usable_text (out_translate
       (sample_env (Response 500 None) (Response 200 (Some (reply_body [text_part english_reply])))
          (Response 500 None))) \<and>
   fetches (fst (snd (callGuruji
       (sample_env (Response 500 None) (Response 200 (Some (reply_body [text_part english_reply])))
          (Response 500 None)) sample_app sample_session (lit ''udya agnivas'')))) =
     fetches sample_app @
       [interpreter_request
          (sample_env (Response 500 None) (Response 200 (Some (reply_body [text_part english_reply])))
             (Response 500 None)) sample_app (lit ''udya agnivas''),
        guruji_request
          (sample_env (Response 500 None) (Response 200 (Some (reply_body [text_part english_reply])))
             (Response 500 None)) sample_app sample_session (lit ''udya agnivas''),
        translate_request sample_app english_reply] \<and>
   messages (snd (snd (callGuruji
       (sample_env (Response 500 None) (Response 200 (Some (reply_body [text_part english_reply])))
          (Response 500 None)) sample_app sample_session (lit ''udya agnivas'')))) =
     messages sample_session @
       [\<lparr>role = lit ''assistant'', content = english_reply, tsISO = lit ''t1''\<rparr>]"
proof -
  let ?env = "sample_env (Response 500 None)
      (Response 200 (Some (reply_body [text_part english_reply]))) (Response 500 None)"
  have g: "geminiFetch (out_guruji ?env) =
      OkResult 200 (reply_body [text_part english_reply])
        (Some (reply_body [text_part english_reply]))"
    by (simp add: sample_out_guruji geminiFetch_200)
  have x: "extractTextFromGemini (reply_body [text_part english_reply]) = Inr english_reply"
    using english_reply_facts(1) by (rule extract_one_part)
  have r: "english_reply =
      (if trim english_reply = [] then lit ''[No response]'' else trim english_reply)"
    using english_reply_facts(1,2) by simp
  have l: "getLanguage (language_item (waited (writes_guruji ?env)
      (waited (writes_interp ?env) sample_app))) = lit ''mr''"
    by (simp add: sample_writes waited_def sample_language)
  have n: "no_usable_text (out_translate ?env)"
    by (simp add: sample_writes no_usable_text_def geminiFetch_def)
  show ?thesis
    using C5_translation_amended [OF sample_key sample_online sample_interp_500 g x r l
        english_reply_facts(3,4), of sample_session] l n english_reply_facts(3,4)
    by (simp add: sample_writes)
qed

text \<open>
  Claim C5, as stated with "at least 40 Latin letters", fails at exactly 40: in Marathi
  mode a reply of 40 Latin letters and no Devanagari goes out untranslated, and the turn
  makes no translation call (\<^verbatim>\<open>latinCount > 40\<close> is false).
\<close>

theorem C5_forty_letters_counterexample:
  "getLanguage (language_item sample_app) = lit ''mr'' \<and>
   40 \<le> latinCount forty_letter_reply \<and> devanagariCount forty_letter_reply < 10 \<and>
   fetches (fst (snd (callGuruji
       (sample_env (Response 500 None)
          (Response 200 (Some (reply_body [text_part forty_letter_reply]))) (Response 500 None))
       sample_app sample_session (lit ''udya agnivas'')))) =
     [interpreter_request
        (sample_env (Response 500 None)
          (Response 200 (Some (reply_body [text_part forty_letter_reply]))) (Response 500 None))
        sample_app (lit ''udya agnivas''),
      guruji_request
        (sample_env (Response 500 None)
          (Response 200 (Some (reply_body [text_part forty_letter_reply]))) (Response 500 None))
        sample_app sample_session (lit ''udya agnivas'')]"
proof -
  let ?env = "sample_env (Response 500 None)
      (Response 200 (Some (reply_body [text_part forty_letter_reply]))) (Response 500 None)"
  have g: "geminiFetch (out_guruji ?env) =
      OkResult 200 (reply_body [text_part forty_letter_reply])
        (Some (reply_body [text_part forty_letter_reply]))"
    by (simp add: sample_out_guruji geminiFetch_200)
  have x: "extractTextFromGemini (reply_body [text_part forty_letter_reply]) = Inr forty_letter_reply"
    using forty_letter_reply_facts(1) by (rule extract_one_part)
  have le: "\<not> looksEnglish forty_letter_reply"
    by (simp add: looksEnglish_def forty_letter_reply_facts)
  have t: "translateToMarathiIfNeeded ?env a forty_letter_reply k = (Inr forty_letter_reply, a)" for a k
    using le by (intro translate_no_call) simp
  have f: "fetches sample_app = []"
    by (simp add: sample_app_def)
  show ?thesis
    using forty_letter_reply_facts
    by (simp add: callGuruji_ok [OF sample_key sample_online sample_interp_500 g x] t
        sample_language f)
qed

section \<open>The session log and the pending retry\<close>

lemma find_index_Some:
  "find_index P xs = Some i \<Longrightarrow> i < length xs \<and> P (xs ! i)"
proof (induction xs arbitrary: i)
  case Nil
  then show ?case by simp
next
  case (Cons x xs)
  show ?case
  proof (cases "P x")
    case True
    with Cons.prems show ?thesis by simp
  next
    case False
    with Cons.prems obtain j where j: "find_index P xs = Some j" "i = Suc j"
      by auto
    with Cons.IH [of j] show ?thesis by simp
  qed
qed

lemma getActiveSession_Some:
  "getActiveSession a = Some i \<Longrightarrow>
   i < length (sessions a) \<and> activeSessionId a = Some (sid (sessions a ! i))"
  by (auto simp: getActiveSession_def split: option.splits dest: find_index_Some)

lemma sessions_interpret [simp]:
  "sessions (snd (interpretUserQuery env a raw key)) = sessions a"
  by (simp add: interpretUserQuery_def Let_def split: fetch_result.splits sum.splits)

lemma sessions_translate [simp]:
  "sessions (snd (translateToMarathiIfNeeded env a reply key)) = sessions a"
  by (simp add: translateToMarathiIfNeeded_def Let_def split: fetch_result.splits sum.splits)

lemma sessions_callGuruji [simp]:
  "sessions (fst (snd (callGuruji env a s raw))) = sessions a"
proof -
  obtain r a1 where i: "interpretUserQuery env a raw (getApiKey (api_key_item a)) = (r, a1)"
    by (cases "interpretUserQuery env a raw (getApiKey (api_key_item a))")
  have a1: "sessions a1 = sessions a"
    using sessions_interpret [of env a raw "getApiKey (api_key_item a)"] unfolding i by simp
  show ?thesis
    unfolding callGuruji_def Let_def i
    using a1
    by (auto split: sum.splits fetch_result.splits prod.splits
        dest: arg_cong [where f = "\<lambda>p. sessions (snd p)"])
qed

lemma callGuruji_session_not_ok:
  "geminiFetch (out_guruji env) = FailResult st bd \<Longrightarrow> snd (snd (callGuruji env a s raw)) = s"
  by (simp add: callGuruji_def Let_def split: sum.splits prod.splits)






text \<open>
  Claim C4: when the Generating-stage call fails (any status that is not ok, a timeout, a
  network error), \<^verbatim>\<open>callGuruji\<close> returns the session as it received it, and after
  \<^verbatim>\<open>insertUserMessage\<close> the log of the active session is the old log followed by
  the user's message and nothing else; no session is added or removed.
\<close>

theorem C4_generating_failure:
  assumes "trim rawText \<noteq> []" and "getActiveSession a = Some i"
    and "geminiFetch (out_guruji env) = FailResult st bd"
  shows "snd (snd (callGuruji env a' s raw)) = s \<and>
         length (sessions (snd (insertUserMessage env ts a rawText))) = length (sessions a) \<and>
         messages (sessions (snd (insertUserMessage env ts a rawText)) ! i) =
           messages (sessions a ! i) @
             [\<lparr>role = lit ''user'', content = trim rawText, tsISO = ts\<rparr>]"
proof -
  have c: "snd (snd (callGuruji env a' s raw)) = s" for a' s raw
    using assms(3) by (rule callGuruji_session_not_ok)
  have i: "i < length (sessions a)"
    using getActiveSession_Some [OF assms(2)] by simp
  define s2 where "s2 = push_user_message (sessions a ! i) (trim rawText) ts"
  define a1 where "a1 = a\<lparr>sessions := (sessions a)[i := s2]\<rparr>"
  obtain err a2 s3 where cg: "callGuruji env a1 s2 (trim rawText) = (err, a2, s3)"
    by (cases "callGuruji env a1 s2 (trim rawText)")
  have s3: "s3 = s2"
    using c [of a1 s2 "trim rawText"] cg by simp
  have "sessions a2 = sessions a1"
    using sessions_callGuruji [of env a1 s2 "trim rawText"] unfolding cg by simp
  then have a2: "sessions a2 = (sessions a)[i := s2]"
    by (simp add: a1_def)
  have ins: "insertUserMessage env ts a rawText = (err, a2\<lparr>sessions := (sessions a2)[i := s3]\<rparr>)"
    using assms(1,2) cg
    by (simp add: insertUserMessage_def Let_def s2_def [symmetric] a1_def [symmetric])
  have m: "messages s2 =
      messages (sessions a ! i) @ [\<lparr>role = lit ''user'', content = trim rawText, tsISO = ts\<rparr>]"
    by (simp add: s2_def push_user_message_def Let_def updateSessionTitleFromFirstMessage_def)
  show ?thesis
    using c i m by (simp add: ins a2 s3)
qed


lemma sample_active: "getActiveSession sample_app = Some 0"
  by (simp add: getActiveSession_def sample_app_def sample_session_def)

lemma geminiFetch_not_ok:
  "\<not> (200 \<le> st \<and> st \<le> 299) \<Longrightarrow> geminiFetch (Response st b) = FailResult st b"
  "geminiFetch (Threw m) = FailResult 0 m"
  by (simp_all add: geminiFetch_def)

theorem C4_generating_failure_witness:
  "trim (lit '' parva panchang '') \<noteq> [] \<and>
   getActiveSession sample_app = Some 0 \<and>
   geminiFetch (out_guruji (sample_env (Response 500 None) (Response 503 None) (Threw None))) =
     FailResult 503 None \<and>
   snd (snd (callGuruji (sample_env (Response 500 None) (Response 503 None) (Threw None))
       sample_app sample_session (lit ''udya agnivas''))) = sample_session \<and>
   length (sessions (snd (insertUserMessage
       (sample_env (Response 500 None) (Response 503 None) (Threw None)) (lit ''t3'')
       sample_app (lit '' parva panchang '')))) = length (sessions sample_app) \<and>
   messages (sessions (snd (insertUserMessage
       (sample_env (Response 500 None) (Response 503 None) (Threw None)) (lit ''t3'')
       sample_app (lit '' parva panchang ''))) ! 0) =
     messages (sessions sample_app ! 0) @
       [\<lparr>role = lit ''user'', content = trim (lit '' parva panchang ''), tsISO = lit ''t3''\<rparr>]"
proof -
  have t: "trim (lit '' parva panchang '') \<noteq> []"
    by code_simp
  have g: "geminiFetch (out_guruji (sample_env (Response 500 None) (Response 503 None) (Threw None))) =
     FailResult 503 None"
    by (simp add: sample_out_guruji geminiFetch_not_ok)
  show ?thesis
    by (rule conjI [OF t conjI [OF sample_active conjI [OF g
          C4_generating_failure [OF t sample_active g]]]])
qed

lemma sid_push_user_message [simp]: "sid (push_user_message s txt ts) = sid s"
  by (simp add: push_user_message_def Let_def updateSessionTitleFromFirstMessage_def)





lemma env500_facts:
  "no_usable_text (out_interp env500)" "geminiFetch (out_guruji env500) = FailResult 500 None"
  by (simp_all add: env500_def sample_env_def no_usable_text_def geminiFetch_def)



lemma request_urls [simp]:
  "url (interpreter_request env a raw) = INTERPRETER_URL"
  "url (guruji_request env a s q) = GURUJI_URL"
  by (simp_all add: interpreter_request_def guruji_request_def)

lemma request_texts [simp]:
  "turn_text (last (contents (sent (interpreter_request env a raw)))) = raw"
  "turn_text (last (contents (sent (guruji_request env a s q)))) = q"
  by (simp_all add: interpreter_request_def interpreter_payload_def guruji_request_def
      contents_buildGurujiPayload)

lemma sent_to_requests [simp]:
  "sent_to (interpreter_request env a raw) = (INTERPRETER_URL, raw)"
  "sent_to (guruji_request env a s q) = (GURUJI_URL, q)"
  by (simp_all add: sent_to_def)











section \<open>The language mode during a turn\<close>

lemma stage_language_requests:
  "stage_language (interpreter_request env a raw) =
     Some (language_of (getLanguage (language_item a)))"
  "stage_language (guruji_request env a s q) =
     Some (language_of (getLanguage (language_item (waited (writes_interp env) a))))"
  by (simp_all add: stage_language_def interpreter_request_def interpreter_payload_def
      buildInterpreterPrompt_def guruji_request_def buildGurujiPayload_def
      buildGurujiSystemInstruction_def language_of_def Let_def)

lemma waited_same:
  assumes "language_item a = Some v" and "set ws \<subseteq> {v}"
  shows "waited ws a = a"
proof (cases "ws = []")
  case True
  then show ?thesis by (simp add: waited_def)
next
  case False
  then have "last ws \<in> set ws" by simp
  with assms(2) have "last ws = v" by auto
  with assms(1) False show ?thesis by (simp add: waited_def)
qed

lemma no_writes_fields [simp]:
  "zone (no_writes env) = zone env" "clock_interp (no_writes env) = clock_interp env"
  "out_interp (no_writes env) = out_interp env" "clock_guruji (no_writes env) = clock_guruji env"
  "out_guruji (no_writes env) = out_guruji env" "clock_retry (no_writes env) = clock_retry env"
  "out_translate (no_writes env) = out_translate env"
  "ts_assistant (no_writes env) = ts_assistant env" "ts_updated (no_writes env) = ts_updated env"
  "writes_interp (no_writes env) = []" "writes_guruji (no_writes env) = []"
  by (simp_all add: no_writes_def)

lemma waited_Nil [simp]: "waited [] a = a"
  by (simp add: waited_def)

lemma translate_no_writes:
  "translateToMarathiIfNeeded (no_writes env) a reply key =
     translateToMarathiIfNeeded env a reply key"
  by (simp add: translateToMarathiIfNeeded_def Let_def split: fetch_result.splits sum.splits)

lemma report_failure_no_writes:
  "report_failure (no_writes env) s raw st bd a = report_failure env s raw st bd a"
  by (simp add: report_failure_def split: option.splits)

lemma interpret_unchanged_mode:
  assumes "language_item a = Some v" and "set (writes_interp env) \<subseteq> {v}"
  shows "interpretUserQuery env a raw key = interpretUserQuery (no_writes env) a raw key"
proof -
  have "waited (writes_interp env) (do_fetch r a) = do_fetch r a" for r
    using assms by (intro waited_same [where v = v]) simp_all
  then show ?thesis
    by (simp add: interpretUserQuery_def Let_def split: fetch_result.splits sum.splits)
qed

lemma language_item_interpret:
  "language_item (snd (interpretUserQuery env a raw key)) =
     language_item (waited (writes_interp env) a)"
  by (simp add: interpretUserQuery_def Let_def split: fetch_result.splits sum.splits)

lemma callGuruji_unchanged_mode:
  assumes "language_item a = Some v"
    and "set (writes_interp env) \<subseteq> {v}" and "set (writes_guruji env) \<subseteq> {v}"
  shows "callGuruji env a s raw = callGuruji (no_writes env) a s raw"
proof -
  let ?k = "getApiKey (api_key_item a)"
  obtain r a1 where i: "interpretUserQuery env a raw ?k = (r, a1)"
    by (cases "interpretUserQuery env a raw ?k")
  have i': "interpretUserQuery (no_writes env) a raw ?k = (r, a1)"
    using interpret_unchanged_mode [OF assms(1,2), of raw ?k] i by simp
  have "language_item a1 = language_item (waited (writes_interp env) a)"
    using language_item_interpret [of env a raw ?k] unfolding i by simp
  also have "waited (writes_interp env) a = a"
    using assms(1,2) by (rule waited_same)
  finally have l: "language_item a1 = Some v"
    using assms(1) by simp
  have w: "waited (writes_guruji env) (do_fetch g a1) = do_fetch g a1" for g
    using l assms(3) by (intro waited_same [where v = v]) simp_all
  show ?thesis
    by (simp add: callGuruji_def Let_def i i' w translate_no_writes report_failure_no_writes
        split: fetch_result.splits sum.splits prod.splits)
qed

lemma language_item_waited:
  "language_item (waited ws a) = stored_after ws (language_item a)"
  by (simp add: stored_after_def)

lemma instruction_requests:
  "systemInstruction (sent (interpreter_request env a raw)) =
     buildInterpreterPrompt (zone env) (clock_interp env) (getLanguage (language_item a))"
  "systemInstruction (sent (guruji_request env a s q)) =
     buildGurujiSystemInstruction (zone env) (clock_guruji env)
       (getLanguage (stored_after (writes_interp env) (language_item a)))"
  "systemInstruction (sent (translate_request a reply)) = TranslateInstruction"
  by (simp_all add: interpreter_request_def interpreter_payload_def guruji_request_def
      buildGurujiPayload_def translate_request_def translate_payload_def stored_after_def
      Let_def)

lemma fetches_callGuruji_ok:
  assumes "getApiKey (api_key_item a) \<noteq> []" and "onLine a"
    and "fst (interpretUserQuery env a raw (getApiKey (api_key_item a))) = Inr q"
    and "geminiFetch (out_guruji env) = OkResult st js bd"
    and "extractTextFromGemini js = Inr t"
    and "reply = (if trim t = [] then lit ''[No response]'' else trim t)"
  shows "fetches (fst (snd (callGuruji env a s raw))) =
     fetches a @ [interpreter_request env a raw, guruji_request env a s q] @
       (if getLanguage (language_item (at_answer env a s raw q)) = lit ''mr'' \<and>
           looksEnglish reply
        then [translate_request a reply] else [])"
proof -
  let ?a2 = "at_answer env a s raw q"
  let ?k = "getApiKey (api_key_item a)"
  obtain x a3 where tr: "translateToMarathiIfNeeded env ?a2 reply ?k = (x, a3)"
    by (cases "translateToMarathiIfNeeded env ?a2 reply ?k")
  have cg: "callGuruji env a s raw =
      (case (x, a3) of
         (Inl e, a3) \<Rightarrow> (Some e, a3, s)
       | (Inr r, a3) \<Rightarrow>
           (None, a3\<lparr>pendingRetry := None\<rparr>,
            s\<lparr>messages := messages s @
                 [\<lparr>role = lit ''assistant'', content = r, tsISO = ts_assistant env\<rparr>],
              updatedAtISO := ts_updated env\<rparr>))"
    using callGuruji_ok [OF assms(1-5), of s] tr by (simp only: assms(6) [symmetric])
  have f: "fetches (fst (snd (callGuruji env a s raw))) = fetches a3"
    by (cases x) (simp_all add: cg)
  show ?thesis
  proof (cases "getLanguage (language_item ?a2) = lit ''mr'' \<and> looksEnglish reply")
    case True
    then have "a3 = do_fetch (translate_request a reply) ?a2"
      using snd_translate_call [of ?a2 reply env a] tr by simp
    then show ?thesis
      using True by (simp add: f fetches_at_answer)
  next
    case False
    then have "a3 = ?a2"
      using translate_no_call [OF False, of env ?k] tr by simp
    then show ?thesis
      using False by (simp add: f fetches_at_answer)
  qed
qed

text \<open>
  Claim C6, amended to what the code does: no stage uses a value captured at turn start,
  each calls \<^verbatim>\<open>getLanguage\<close> when it starts. The theorem reads the system
  instructions off the requests that \<^verbatim>\<open>callGuruji\<close> hands to \<^verbatim>\<open>fetch\<close>, for a turn
  that reaches the Generating stage:
  \<^item> the interpreter's prompt is the one built for the mode stored at turn start;
  \<^item> Guruji's instruction is the one built for the mode stored when the interpreter's
    answer has arrived, that is, after the writes made while the turn waited for it;
  \<^item> when Guruji's call is not ok, these two requests are all the turn makes;
  \<^item> when Guruji answers with a text, the translation call is issued exactly when the
    mode stored when Guruji's answer has arrived is \<^verbatim>\<open>mr\<close> and the reply (the
    trimmed text, or \<^verbatim>\<open>[No response]\<close> when that is empty) looks English.

  So a change made during the turn is seen by the stages that start after it. And when
  every value written while the turn waits is the value \<open>v\<close> stored at turn start (the
  mode does not change in flight), the run is the run of the same turn with no write at
  all.
\<close>

theorem C6_language_reads_amended:
  "(language_item a = Some v \<and> set (writes_interp env) \<subseteq> {v} \<and>
      set (writes_guruji env) \<subseteq> {v} \<longrightarrow>
    callGuruji env a s raw = callGuruji (no_writes env) a s raw) \<and>
   (getApiKey (api_key_item a) \<noteq> [] \<and> onLine a \<and>
      fst (interpretUserQuery env a raw (getApiKey (api_key_item a))) = Inr q \<and>
      geminiFetch (out_guruji env) = FailResult st bd \<longrightarrow>
    map (\<lambda>r. systemInstruction (sent r)) (fetches (fst (snd (callGuruji env a s raw)))) =
      map (\<lambda>r. systemInstruction (sent r)) (fetches a) @
        [buildInterpreterPrompt (zone env) (clock_interp env) (getLanguage (language_item a)),
         buildGurujiSystemInstruction (zone env) (clock_guruji env)
           (getLanguage (stored_after (writes_interp env) (language_item a)))]) \<and>
   (getApiKey (api_key_item a) \<noteq> [] \<and> onLine a \<and>
      fst (interpretUserQuery env a raw (getApiKey (api_key_item a))) = Inr q \<and>
      geminiFetch (out_guruji env) = OkResult st js bd \<and> extractTextFromGemini js = Inr t \<longrightarrow>
    map (\<lambda>r. systemInstruction (sent r)) (fetches (fst (snd (callGuruji env a s raw)))) =
      map (\<lambda>r. systemInstruction (sent r)) (fetches a) @
        [buildInterpreterPrompt (zone env) (clock_interp env) (getLanguage (language_item a)),
         buildGurujiSystemInstruction (zone env) (clock_guruji env)
           (getLanguage (stored_after (writes_interp env) (language_item a)))] @
        (if getLanguage (stored_after (writes_guruji env)
               (stored_after (writes_interp env) (language_item a))) = lit ''mr'' \<and>
            looksEnglish (if trim t = [] then lit ''[No response]'' else trim t)
         then [TranslateInstruction] else []))"
proof -
  have c1: "callGuruji env a s raw = callGuruji (no_writes env) a s raw"
    if "language_item a = Some v" "set (writes_interp env) \<subseteq> {v}"
      "set (writes_guruji env) \<subseteq> {v}"
    using that by (rule callGuruji_unchanged_mode)
  have c2: "map (\<lambda>r. systemInstruction (sent r)) (fetches (fst (snd (callGuruji env a s raw)))) =
      map (\<lambda>r. systemInstruction (sent r)) (fetches a) @
        [buildInterpreterPrompt (zone env) (clock_interp env) (getLanguage (language_item a)),
         buildGurujiSystemInstruction (zone env) (clock_guruji env)
           (getLanguage (stored_after (writes_interp env) (language_item a)))]"
    if "getApiKey (api_key_item a) \<noteq> []" "onLine a"
      "fst (interpretUserQuery env a raw (getApiKey (api_key_item a))) = Inr q"
      "geminiFetch (out_guruji env) = FailResult st bd"
    by (simp add: callGuruji_not_ok [OF that] fetches_at_answer instruction_requests)
  have l: "language_item (at_answer env a s raw q) =
      stored_after (writes_guruji env) (stored_after (writes_interp env) (language_item a))"
    by (simp only: language_item_at_answer language_item_waited)
  have c3: "map (\<lambda>r. systemInstruction (sent r)) (fetches (fst (snd (callGuruji env a s raw)))) =
      map (\<lambda>r. systemInstruction (sent r)) (fetches a) @
        [buildInterpreterPrompt (zone env) (clock_interp env) (getLanguage (language_item a)),
         buildGurujiSystemInstruction (zone env) (clock_guruji env)
           (getLanguage (stored_after (writes_interp env) (language_item a)))] @
        (if getLanguage (stored_after (writes_guruji env)
               (stored_after (writes_interp env) (language_item a))) = lit ''mr'' \<and>
            looksEnglish (if trim t = [] then lit ''[No response]'' else trim t)
         then [TranslateInstruction] else [])"
    if "getApiKey (api_key_item a) \<noteq> []" "onLine a"
      "fst (interpretUserQuery env a raw (getApiKey (api_key_item a))) = Inr q"
      "geminiFetch (out_guruji env) = OkResult st js bd" "extractTextFromGemini js = Inr t"
    unfolding fetches_callGuruji_ok [OF that refl] l
    by (simp add: instruction_requests)
  show ?thesis
    using c1 c2 c3 by blast
qed

lemma sample_language_item: "language_item sample_app = Some (lit ''mr'')"
  by (simp add: sample_app_def)

lemma english_reply_looks_english: "looksEnglish english_reply"
  using english_reply_facts by (simp add: looksEnglish_def)

lemma stored_after_samples:
  "getLanguage (stored_after [lit ''en''] (Some (lit ''mr''))) = lit ''en''"
  "getLanguage (stored_after [] (Some (lit ''mr''))) = lit ''mr''"
  "getLanguage (stored_after [lit ''en''] (stored_after [] (Some (lit ''mr'')))) \<noteq> lit ''mr''"
  "getLanguage (Some (lit ''mr'')) = lit ''mr''"
  by (simp_all add: stored_after_def getLanguage_def lit_def)

text \<open>
  Three turns from the sample state, whose mode is \<^verbatim>\<open>mr\<close>. In the first the value
  \<^verbatim>\<open>mr\<close> is written again while the turn waits: nothing changes. In the second
  \<^verbatim>\<open>en\<close> is written while the turn waits for the interpreter, and Guruji's
  instruction is built for \<^verbatim>\<open>en\<close>. In the third \<^verbatim>\<open>en\<close> is written while the turn
  waits for Guruji, who answers in English: no translation call is made, though the
  mode was \<^verbatim>\<open>mr\<close> when the turn started.
\<close>

theorem C6_language_reads_amended_witness:
  "language_item sample_app = Some (lit ''mr'') \<and>
   set (writes_interp (env500\<lparr>writes_interp := [lit ''mr'']\<rparr>)) \<subseteq> {lit ''mr''} \<and>
   set (writes_guruji (env500\<lparr>writes_interp := [lit ''mr'']\<rparr>)) \<subseteq> {lit ''mr''} \<and>
   callGuruji (env500\<lparr>writes_interp := [lit ''mr'']\<rparr>) sample_app sample_session
       (lit ''udya agnivas'') =
     callGuruji (no_writes (env500\<lparr>writes_interp := [lit ''mr'']\<rparr>)) sample_app sample_session
       (lit ''udya agnivas'') \<and>
   getApiKey (api_key_item sample_app) \<noteq> [] \<and> onLine sample_app \<and>
   geminiFetch (out_guruji (env500\<lparr>writes_interp := [lit ''en'']\<rparr>)) = FailResult 500 None \<and>
   map (\<lambda>r. systemInstruction (sent r))
     (fetches (fst (snd (callGuruji (env500\<lparr>writes_interp := [lit ''en'']\<rparr>) sample_app
        sample_session (lit ''udya agnivas''))))) =
     [buildInterpreterPrompt kolkata (reads_at 1770000000000) (lit ''mr''),
      buildGurujiSystemInstruction kolkata (grounding_at 1770000001000) (lit ''en'')] \<and>
   geminiFetch (out_guruji ((sample_env (Response 500 None)
       (Response 200 (Some (reply_body [text_part english_reply]))) (Threw None))
         \<lparr>writes_guruji := [lit ''en'']\<rparr>)) =
     OkResult 200 (reply_body [text_part english_reply])
       (Some (reply_body [text_part english_reply])) \<and>
   extractTextFromGemini (reply_body [text_part english_reply]) = Inr english_reply \<and>
   looksEnglish (if trim english_reply = [] then lit ''[No response]'' else trim english_reply) \<and>
   map (\<lambda>r. systemInstruction (sent r))
     (fetches (fst (snd (callGuruji ((sample_env (Response 500 None)
       (Response 200 (Some (reply_body [text_part english_reply]))) (Threw None))
         \<lparr>writes_guruji := [lit ''en'']\<rparr>) sample_app sample_session (lit ''udya agnivas''))))) =
     [buildInterpreterPrompt kolkata (reads_at 1770000000000) (lit ''mr''),
      buildGurujiSystemInstruction kolkata (grounding_at 1770000001000) (lit ''mr'')]"
proof -
  let ?envA = "env500\<lparr>writes_interp := [lit ''mr'']\<rparr>"
  let ?envB = "env500\<lparr>writes_interp := [lit ''en'']\<rparr>"
  let ?envC = "(sample_env (Response 500 None)
       (Response 200 (Some (reply_body [text_part english_reply]))) (Threw None))
         \<lparr>writes_guruji := [lit ''en'']\<rparr>"
  have w1: "set (writes_interp ?envA) \<subseteq> {lit ''mr''}"
    by simp
  have w2: "set (writes_guruji ?envA) \<subseteq> {lit ''mr''}"
    by (simp add: env500_def sample_env_def)
  have A: "callGuruji ?envA sample_app sample_session (lit ''udya agnivas'') =
     callGuruji (no_writes ?envA) sample_app sample_session (lit ''udya agnivas'')"
    using C6_language_reads_amended [where a = sample_app and v = "lit ''mr''" and env = ?envA]
      sample_language_item w1 w2 by blast
  have f: "fetches sample_app = []"
    by (simp add: sample_app_def)
  have nB: "no_usable_text (out_interp ?envB)"
    and gB: "geminiFetch (out_guruji ?envB) = FailResult 500 None"
    using env500_facts by simp_all
  have iB: "fst (interpretUserQuery ?envB sample_app (lit ''udya agnivas'')
      (getApiKey (api_key_item sample_app))) = Inr (lit ''udya agnivas'')"
    using nB by (rule fst_interpretUserQuery_fallback)
  have eB: "zone ?envB = kolkata" "clock_interp ?envB = reads_at 1770000000000"
    "clock_guruji ?envB = grounding_at 1770000001000" "writes_interp ?envB = [lit ''en'']"
    by (simp_all add: env500_def sample_env_def)
  have B: "map (\<lambda>r. systemInstruction (sent r))
     (fetches (fst (snd (callGuruji ?envB sample_app sample_session (lit ''udya agnivas''))))) =
     [buildInterpreterPrompt kolkata (reads_at 1770000000000) (lit ''mr''),
      buildGurujiSystemInstruction kolkata (grounding_at 1770000001000) (lit ''en'')]"
    using C6_language_reads_amended [where a = sample_app and env = ?envB
        and raw = "lit ''udya agnivas''" and q = "lit ''udya agnivas''" and st = 500
        and bd = None and s = sample_session]
      sample_key sample_online iB gB
    by (simp add: f eB sample_language_item stored_after_samples)
  have nC: "no_usable_text (out_interp ?envC)"
    by (simp add: sample_env_def no_usable_text_def geminiFetch_def)
  have gC: "geminiFetch (out_guruji ?envC) =
     OkResult 200 (reply_body [text_part english_reply])
       (Some (reply_body [text_part english_reply]))"
    by (simp add: sample_env_def geminiFetch_200)
  have iC: "fst (interpretUserQuery ?envC sample_app (lit ''udya agnivas'')
      (getApiKey (api_key_item sample_app))) = Inr (lit ''udya agnivas'')"
    using nC by (rule fst_interpretUserQuery_fallback)
  have x: "extractTextFromGemini (reply_body [text_part english_reply]) = Inr english_reply"
    using english_reply_facts(1) by (rule extract_one_part)
  have le: "looksEnglish (if trim english_reply = [] then lit ''[No response]''
      else trim english_reply)"
    using english_reply_looks_english by (simp add: english_reply_facts)
  have eC: "zone ?envC = kolkata" "clock_interp ?envC = reads_at 1770000000000"
    "clock_guruji ?envC = grounding_at 1770000001000" "writes_interp ?envC = []"
    "writes_guruji ?envC = [lit ''en'']"
    by (simp_all add: sample_env_def)
  have C: "map (\<lambda>r. systemInstruction (sent r))
     (fetches (fst (snd (callGuruji ?envC sample_app sample_session (lit ''udya agnivas''))))) =
     [buildInterpreterPrompt kolkata (reads_at 1770000000000) (lit ''mr''),
      buildGurujiSystemInstruction kolkata (grounding_at 1770000001000) (lit ''mr'')]"
    using C6_language_reads_amended [where a = sample_app and env = ?envC
        and raw = "lit ''udya agnivas''" and q = "lit ''udya agnivas''" and st = 200
        and js = "reply_body [text_part english_reply]"
        and bd = "Some (reply_body [text_part english_reply])" and t = english_reply
        and s = sample_session]
      sample_key sample_online iC gC x
    by (simp add: f eC sample_language_item stored_after_samples)
  show ?thesis
    using sample_language_item w1 w2 A sample_key sample_online gB B gC x le C
    by simp
qed

text \<open>
  Claim C6, as stated, fails: two runs of one turn from the same state, with the same
  answers, that differ only in a write of \<^verbatim>\<open>en\<close> to the language item while the turn
  waits for the interpreter. In the second run the interpreter's prompt is built for
  Marathi and Guruji's instruction for English.
\<close>

theorem C6_mid_turn_change_counterexample:
  "language_item sample_app = Some (lit ''mr'') \<and>
   map stage_language (fetches (fst (snd (callGuruji env500 sample_app sample_session
       (lit ''udya agnivas''))))) = [Some Marathi, Some Marathi] \<and>
   map stage_language (fetches (fst (snd (callGuruji (env500\<lparr>writes_interp := [lit ''en'']\<rparr>)
       sample_app sample_session (lit ''udya agnivas''))))) = [Some Marathi, Some English]"
proof -
  let ?envB = "env500\<lparr>writes_interp := [lit ''en'']\<rparr>"
  have n: "no_usable_text (out_interp ?envB)" and g: "geminiFetch (out_guruji ?envB) = FailResult 500 None"
    using env500_facts by simp_all
  have iA: "fst (interpretUserQuery env500 sample_app (lit ''udya agnivas'')
      (getApiKey (api_key_item sample_app))) = Inr (lit ''udya agnivas'')"
    using env500_facts(1) by (rule fst_interpretUserQuery_fallback)
  have iB: "fst (interpretUserQuery ?envB sample_app (lit ''udya agnivas'')
      (getApiKey (api_key_item sample_app))) = Inr (lit ''udya agnivas'')"
    using n by (rule fst_interpretUserQuery_fallback)
  have f: "fetches sample_app = []"
    by (simp add: sample_app_def)
  have wA: "writes_interp env500 = []"
    by (simp add: env500_def sample_env_def)
  have l: "language_of (getLanguage (Some (lit ''mr''))) = Marathi"
    "language_of (getLanguage (Some (lit ''en''))) = English"
    by (simp_all add: language_of_def getLanguage_def lit_def)
  have A: "map stage_language (fetches (fst (snd (callGuruji env500 sample_app sample_session
       (lit ''udya agnivas''))))) = [Some Marathi, Some Marathi]"
    by (simp add: callGuruji_not_ok [OF sample_key sample_online iA env500_facts(2)] f
        stage_language_requests wA sample_language_item l)
  have B: "map stage_language (fetches (fst (snd (callGuruji ?envB sample_app sample_session
       (lit ''udya agnivas''))))) = [Some Marathi, Some English]"
    by (simp add: callGuruji_not_ok [OF sample_key sample_online iB g] f
        stage_language_requests sample_language_item l)
  show ?thesis
    using sample_language_item A B by simp
qed

section \<open>Tomorrow in the zone\<close>

lemma DayFromYear_1970: "DayFromYear 1970 = 0"
  by (simp add: DayFromYear_def)

lemma DaysInYear_bounds: "365 \<le> DaysInYear y" "DaysInYear y \<le> 366"
  by (simp_all add: DaysInYear_def)

lemma DayFromYear_upper: "0 \<le> k \<Longrightarrow> DayFromYear (1970 + k) \<le> 366 * k"
proof (induction k rule: int_ge_induct)
  case base
  then show ?case by (simp add: DayFromYear_1970)
next
  case (step i)
  have "DayFromYear (1970 + (i + 1)) = DayFromYear (1970 + i) + DaysInYear (1970 + i)"
    using DayFromYear_Suc [of "1970 + i"] by (simp add: add.assoc)
  with step.IH DaysInYear_bounds(2) [of "1970 + i"] show ?case by (simp add: distrib_left)
qed

lemma DayFromYear_lower: "k \<le> 0 \<Longrightarrow> DayFromYear (1970 + k) \<le> 365 * k"
proof (induction k rule: int_le_induct)
  case base
  then show ?case by (simp add: DayFromYear_1970)
next
  case (step i)
  have "DayFromYear (1970 + i) = DayFromYear (1970 + (i - 1)) + DaysInYear (1970 + (i - 1))"
    using DayFromYear_Suc [of "1970 + (i - 1)"] by simp
  with step.IH DaysInYear_bounds(1) [of "1970 + (i - 1)"] show ?case
    by (simp add: right_diff_distrib)
qed

lemma start_year_le: "DayFromYear (1970 + (if 0 \<le> d then d div 366 else d div 365)) \<le> d"
proof (cases "0 \<le> d")
  case True
  then have "0 \<le> d div 366" by simp
  from DayFromYear_upper [OF this] have "DayFromYear (1970 + d div 366) \<le> 366 * (d div 366)" .
  also have "\<dots> \<le> d" using mult_div_mod_eq [of 366 d] pos_mod_sign [of 366 d] by linarith
  finally show ?thesis using True by simp
next
  case False
  then have "d div 365 \<le> 0" by (intro div_nonpos_pos_le0) simp_all
  from DayFromYear_lower [OF this] have "DayFromYear (1970 + d div 365) \<le> 365 * (d div 365)" .
  also have "\<dots> \<le> d" using mult_div_mod_eq [of 365 d] pos_mod_sign [of 365 d] by linarith
  finally show ?thesis using False by simp
qed

lemma year_from_bounds:
  "DayFromYear y \<le> d \<Longrightarrow>
   DayFromYear (year_from y d) \<le> d \<and> d < DayFromYear (year_from y d + 1)"
proof (induction y d rule: year_from.induct)
  case (1 y d)
  show ?case
  proof (cases "DayFromYear (y + 1) \<le> d")
    case True
    with "1.IH" show ?thesis by (subst (1 2) year_from.simps) simp
  next
    case False
    with "1.prems" show ?thesis by (subst (1 2) year_from.simps) simp
  qed
qed

lemma YearFromDay_bounds:
  "DayFromYear (YearFromDay d) \<le> d" "d < DayFromYear (YearFromDay d + 1)"
  using year_from_bounds [OF start_year_le, of d] by (simp_all add: YearFromDay_def)

lemma DayFromYear_mono: "y \<le> y' \<Longrightarrow> DayFromYear y \<le> DayFromYear y'"
proof (induction y' rule: int_ge_induct)
  case base
  then show ?case by simp
next
  case (step i)
  with DayFromYear_Suc [of i] DaysInYear_bounds(1) [of i] show ?case by linarith
qed

lemma YearFromDay_unique:
  assumes "DayFromYear y \<le> d" and "d < DayFromYear (y + 1)"
  shows "YearFromDay d = y"
proof (rule ccontr)
  assume ne: "YearFromDay d \<noteq> y"
  let ?z = "YearFromDay d"
  show False
  proof (cases "?z < y")
    case True
    then have "DayFromYear (?z + 1) \<le> DayFromYear y" by (intro DayFromYear_mono) simp
    with YearFromDay_bounds(2) [of d] assms(1) show False by linarith
  next
    case False
    with ne have "y + 1 \<le> ?z" by simp
    then have "DayFromYear (y + 1) \<le> DayFromYear ?z" by (rule DayFromYear_mono)
    with YearFromDay_bounds(1) [of d] assms(2) show False by linarith
  qed
qed


lemma month_index_cases:
  "0 \<le> m \<Longrightarrow> m \<le> 11 \<Longrightarrow>
   m = 0 \<or> m = 1 \<or> m = 2 \<or> m = 3 \<or> m = 4 \<or> m = 5 \<or> m = 6 \<or> m = 7 \<or> m = 8 \<or> m = 9 \<or>
   m = 10 \<or> m = (11::int)"
  by arith

lemma month_start_Suc:
  "0 \<le> m \<Longrightarrow> m < 11 \<Longrightarrow> month_start (m + 1) l = month_start m l + month_len m l"
  using month_index_cases [of m] by (auto simp: month_start_def month_len_def)

lemma month_start_last: "month_start 11 l + month_len 11 l = 365 + l"
  by (simp add: month_start_def month_len_def)

lemma month_of_range:
  assumes "0 \<le> n" and "n < 365 + l" and "l = 0 \<or> l = 1"
  shows "0 \<le> month_of n l \<and> month_of n l \<le> 11 \<and> month_start (month_of n l) l \<le> n \<and>
         n < month_start (month_of n l) l + month_len (month_of n l) l"
  using assms by (auto simp: month_of_def month_start_def month_len_def)

lemma month_of_char:
  assumes "0 \<le> m" and "m \<le> 11" and "l = 0 \<or> l = 1"
    and "month_start m l \<le> n" and "n < month_start m l + month_len m l"
  shows "month_of n l = m"
  using month_index_cases [OF assms(1,2)] assms(3,4,5)
  by (auto simp: month_of_def month_start_def month_len_def)

lemma days_in_month_len:
  "0 \<le> m \<Longrightarrow> m \<le> 11 \<Longrightarrow> days_in_month y (m + 1) = month_len m (if leap y then 1 else 0)"
  using month_index_cases [of m] by (auto simp: days_in_month_def month_len_def)

lemma day_within_year:
  "0 \<le> d - DayFromYear (YearFromDay d)"
  "d - DayFromYear (YearFromDay d) < DaysInYear (YearFromDay d)"
  using YearFromDay_bounds [of d] DayFromYear_Suc [of "YearFromDay d"] by simp_all

lemma date_of_day_eq:
  assumes "YearFromDay d = y" and "d - DayFromYear y = n" and "(if leap y then 1 else 0) = l"
    and "month_of n l = m"
  shows "date_of_day d = \<lparr>yyyy = y, mm = m + 1, dd = n - month_start m l + 1\<rparr>"
  unfolding date_of_day_def Let_def assms(1) assms(2) assms(3) assms(4) ..

lemma date_of_day_same_year:
  assumes "d + 1 < DayFromYear (YearFromDay d + 1)"
  shows "date_of_day (d + 1) = next_day (date_of_day d)"
proof -
  define y where "y = YearFromDay d"
  define n where "n = d - DayFromYear y"
  define l :: int where "l = (if leap y then 1 else 0)"
  define m where "m = month_of n l"
  have l: "l = 0 \<or> l = 1" by (simp add: l_def)
  have n0: "0 \<le> n" and n1: "n < 365 + l"
    using day_within_year [of d] by (simp_all add: n_def y_def l_def DaysInYear_def split: if_splits)
  have y': "YearFromDay (d + 1) = y"
    using YearFromDay_bounds(1) [of d] assms by (intro YearFromDay_unique) (simp_all add: y_def)
  have n': "d + 1 - DayFromYear y = n + 1"
    by (simp add: n_def)
  have n2: "n + 1 < 365 + l"
    using assms DayFromYear_Suc [of y] by (simp add: n_def y_def l_def DaysInYear_def split: if_splits)
  note r = month_of_range [OF n0 n1 l, folded m_def]
  have today: "date_of_day d = \<lparr>yyyy = y, mm = m + 1, dd = n - month_start m l + 1\<rparr>"
    by (intro date_of_day_eq) (simp_all add: y_def n_def l_def m_def)
  have dim: "days_in_month y (m + 1) = month_len m l"
    using r by (simp add: days_in_month_len l_def)
  show ?thesis
  proof (cases "n + 1 < month_start m l + month_len m l")
    case True
    have "month_of (n + 1) l = m"
      using r True by (intro month_of_char l) simp_all
    then have "date_of_day (d + 1) = \<lparr>yyyy = y, mm = m + 1, dd = n + 1 - month_start m l + 1\<rparr>"
      by (intro date_of_day_eq y' n') (simp_all add: l_def)
    moreover have "next_day (date_of_day d) = \<lparr>yyyy = y, mm = m + 1, dd = n - month_start m l + 1 + 1\<rparr>"
      using True by (simp add: next_day_def today dim)
    ultimately show ?thesis by simp
  next
    case False
    with r have e: "n + 1 = month_start m l + month_len m l" by simp
    have m11: "m < 11"
    proof (rule ccontr)
      assume "\<not> m < 11"
      with r have "m = 11" by simp
      with e month_start_last [of l] n2 show False by simp
    qed
    have ms: "month_start (m + 1) l = n + 1"
      using r m11 e by (simp add: month_start_Suc)
    have "0 < month_len (m + 1) l"
      using l by (auto simp: month_len_def)
    then have "month_of (n + 1) l = m + 1"
      using r m11 ms by (intro month_of_char l) simp_all
    then have "date_of_day (d + 1) =
        \<lparr>yyyy = y, mm = m + 1 + 1, dd = n + 1 - month_start (m + 1) l + 1\<rparr>"
      by (intro date_of_day_eq y' n') (simp_all add: l_def)
    then have "date_of_day (d + 1) = \<lparr>yyyy = y, mm = m + 1 + 1, dd = 1\<rparr>"
      by (simp add: ms)
    moreover have "next_day (date_of_day d) = \<lparr>yyyy = y, mm = m + 1 + 1, dd = 1\<rparr>"
      using e m11 by (simp add: next_day_def today dim)
    ultimately show ?thesis by simp
  qed
qed

lemma date_of_day_new_year:
  assumes "\<not> d + 1 < DayFromYear (YearFromDay d + 1)"
  shows "date_of_day (d + 1) = next_day (date_of_day d)"
proof -
  define y where "y = YearFromDay d"
  define n where "n = d - DayFromYear y"
  define l :: int where "l = (if leap y then 1 else 0)"
  have e: "d + 1 = DayFromYear (y + 1)"
    using assms YearFromDay_bounds(2) [of d] by (simp add: y_def)
  have n: "n = 364 + l"
    using e DayFromYear_Suc [of y] by (simp add: n_def l_def DaysInYear_def split: if_splits)
  have l: "l = 0 \<or> l = 1" by (simp add: l_def)
  have m: "month_of n l = 11"
    using l n by (auto simp: month_of_def)
  have "date_of_day d = \<lparr>yyyy = y, mm = 11 + 1, dd = n - month_start 11 l + 1\<rparr>"
    by (intro date_of_day_eq m) (simp_all add: y_def n_def l_def)
  then have today: "date_of_day d = \<lparr>yyyy = y, mm = 12, dd = 31\<rparr>"
    using n by (simp add: month_start_def)
  have "DayFromYear (y + 1) < DayFromYear (y + 1 + 1)"
    using DayFromYear_Suc [of "y + 1"] DaysInYear_bounds(1) [of "y + 1"] by linarith
  then have y': "YearFromDay (d + 1) = y + 1"
    using e by (intro YearFromDay_unique) simp_all
  have "date_of_day (d + 1) =
      \<lparr>yyyy = y + 1, mm = 0 + 1, dd = 0 - month_start 0 (if leap (y + 1) then 1 else 0) + 1\<rparr>"
    by (intro date_of_day_eq y') (simp_all add: e month_of_def)
  then have "date_of_day (d + 1) = \<lparr>yyyy = y + 1, mm = 1, dd = 1\<rparr>"
    by (simp add: month_start_def)
  moreover have "next_day (date_of_day d) = \<lparr>yyyy = y + 1, mm = 1, dd = 1\<rparr>"
    by (simp add: next_day_def today days_in_month_def)
  ultimately show ?thesis by simp
qed

lemma date_of_day_Suc: "date_of_day (d + 1) = next_day (date_of_day d)"
  using date_of_day_same_year date_of_day_new_year by blast

lemma Day_midnight [simp]: "Day (d * msPerDay) = d" "TimeWithinDay (d * msPerDay) = 0"
  by (simp_all add: Day_def TimeWithinDay_def msPerDay_def)

lemma Day_within:
  assumes "0 \<le> x" and "x < msPerDay"
  shows "Day (d * msPerDay + x) = d"
proof -
  have "(x + d * msPerDay) div msPerDay = d + x div msPerDay"
    by (rule div_mult_self1) (simp add: msPerDay_def)
  moreover have "x div msPerDay = 0"
    using assms by (simp add: div_pos_pos_trivial)
  ultimately show ?thesis
    by (simp add: Day_def add.commute)
qed

lemma date_of_time:
  "\<lparr>yyyy = YearFromTime t, mm = MonthFromTime t + 1, dd = DateFromTime t\<rparr> = date_of_day (Day t)"
  by (simp add: date_of_day_def Let_def YearFromTime_def MonthFromTime_def DateFromTime_def
      DayWithinYear_def InLeapYear_def)

lemma getISTDateParts_day: "getISTDateParts off t = date_of_day (Day (t + off t))"
  by (simp add: getISTDateParts_def Let_def date_of_time)

lemma date_of_day_fields:
  "yyyy (date_of_day d) = YearFromDay d"
  "0 \<le> mm (date_of_day d) - 1" "mm (date_of_day d) - 1 \<le> 11"
  "DayFromYear (YearFromDay d) +
     month_start (mm (date_of_day d) - 1) (if leap (YearFromDay d) then 1 else 0) +
     dd (date_of_day d) - 1 = d"
proof -
  define y where "y = YearFromDay d"
  define n where "n = d - DayFromYear y"
  define l :: int where "l = (if leap y then 1 else 0)"
  have l: "l = 0 \<or> l = 1" by (simp add: l_def)
  have n0: "0 \<le> n" and n1: "n < 365 + l"
    using day_within_year [of d] by (simp_all add: n_def y_def l_def DaysInYear_def split: if_splits)
  note r = month_of_range [OF n0 n1 l]
  have c: "date_of_day d =
      \<lparr>yyyy = y, mm = month_of n l + 1, dd = n - month_start (month_of n l) l + 1\<rparr>"
    by (intro date_of_day_eq) (simp_all add: y_def n_def l_def)
  show "yyyy (date_of_day d) = YearFromDay d"
    by (simp add: c y_def)
  show "0 \<le> mm (date_of_day d) - 1" "mm (date_of_day d) - 1 \<le> 11"
    using r by (simp_all add: c)
  show "DayFromYear (YearFromDay d) +
     month_start (mm (date_of_day d) - 1) (if leap (YearFromDay d) then 1 else 0) +
     dd (date_of_day d) - 1 = d"
    by (simp add: c y_def [symmetric] l_def [symmetric] n_def)
qed

lemma MakeDay_date_of_day:
  "MakeDay (YearFromDay d) (mm (date_of_day d) - 1) (dd (date_of_day d) + k) = d + k"
proof -
  let ?m = "mm (date_of_day d) - 1"
  have m: "?m div 12 = 0" "?m mod 12 = ?m"
    using date_of_day_fields(2,3) [of d] by (simp_all add: div_pos_pos_trivial)
  show ?thesis
    unfolding MakeDay_def Let_def m
    using date_of_day_fields(4) [of d] by simp
qed

lemma DateUTC_date_of_day:
  assumes "\<not> (0 \<le> YearFromDay d \<and> YearFromDay d \<le> 99)"
  shows "DateUTC (yyyy (date_of_day d)) (mm (date_of_day d) - 1) (dd (date_of_day d)) =
     d * msPerDay"
proof -
  have "(if 0 \<le> YearFromDay d \<and> YearFromDay d \<le> 99 then 1900 + YearFromDay d
         else YearFromDay d) = YearFromDay d"
    using assms by auto
  then show ?thesis
    using MakeDay_date_of_day [of d 0] by (simp add: DateUTC_def date_of_day_fields(1))
qed

lemma setUTCDate_midnight:
  "setUTCDate (d * msPerDay) (getUTCDate (d * msPerDay) + k) = (d + k) * msPerDay"
proof -
  have e: "date_of_day d = \<lparr>yyyy = YearFromTime (d * msPerDay),
         mm = MonthFromTime (d * msPerDay) + 1, dd = DateFromTime (d * msPerDay)\<rparr>"
    using date_of_time [of "d * msPerDay"] by simp
  have f: "YearFromTime (d * msPerDay) = YearFromDay d"
    "MonthFromTime (d * msPerDay) = mm (date_of_day d) - 1"
    "DateFromTime (d * msPerDay) = dd (date_of_day d)"
    using date_of_day_fields(1) [of d] by (simp_all add: e)
  show ?thesis
    by (simp add: setUTCDate_def getUTCDate_def f MakeDay_date_of_day)
qed

lemma addDaysIST_day:
  assumes "\<not> (0 \<le> yyyy (istDateISO off t) \<and> yyyy (istDateISO off t) \<le> 99)"
  shows "addDaysIST off t k = (Day (t + off t) + k) * msPerDay"
proof -
  let ?d = "Day (t + off t)"
  have i: "istDateISO off t = date_of_day ?d"
    by (simp add: istDateISO_def getISTDateParts_day)
  have "\<not> (0 \<le> YearFromDay ?d \<and> YearFromDay ?d \<le> 99)"
    using assms by (simp add: i date_of_day_fields(1))
  then show ?thesis
    by (simp add: addDaysIST_def Let_def i DateUTC_date_of_day setUTCDate_midnight)
qed

lemma istDateISO_midnight:
  assumes "\<forall>u. 0 \<le> off u \<and> off u < msPerDay"
  shows "istDateISO off (d * msPerDay) = date_of_day d"
  using assms by (simp add: istDateISO_def getISTDateParts_day Day_within)


lemma Day_within_west:
  assumes "- msPerDay \<le> x" and "x < 0"
  shows "Day ((d + 1) * msPerDay + x) = d"
proof -
  have e: "(d + 1) * msPerDay + x = d * msPerDay + (x + msPerDay)"
    by (simp add: distrib_right)
  have "Day (d * msPerDay + (x + msPerDay)) = d"
    using assms by (intro Day_within) simp_all
  then show ?thesis
    by (simp only: e)
qed

lemma istDateISO_day: "istDateISO off t = date_of_day (Day (t + off t))"
  by (simp add: istDateISO_def getISTDateParts_day)

lemma tomorrow_east:
  assumes "\<forall>u. 0 \<le> off u \<and> off u < msPerDay" and "100 \<le> yyyy (istDateISO off t)"
  shows "istDateISO off (addDaysIST off t 1) = next_day (istDateISO off t)"
proof -
  let ?d = "Day (t + off t)"
  have y: "\<not> (0 \<le> yyyy (istDateISO off t) \<and> yyyy (istDateISO off t) \<le> 99)"
    using assms(2) by simp
  have "istDateISO off (addDaysIST off t 1) = date_of_day (?d + 1)"
    by (simp only: addDaysIST_day [OF y] istDateISO_midnight [OF assms(1)])
  also have "\<dots> = next_day (date_of_day ?d)"
    by (rule date_of_day_Suc)
  finally show ?thesis
    by (simp only: istDateISO_day)
qed

lemma tomorrow_west:
  assumes "\<forall>u. - msPerDay \<le> off u \<and> off u < 0" and "100 \<le> yyyy (istDateISO off t)"
  shows "istDateISO off (addDaysIST off t 1) = istDateISO off t"
proof -
  let ?d = "Day (t + off t)"
  let ?m = "(?d + 1) * msPerDay"
  have y: "\<not> (0 \<le> yyyy (istDateISO off t) \<and> yyyy (istDateISO off t) \<le> 99)"
    using assms(2) by simp
  have "Day (?m + off ?m) = ?d"
    using assms(1) by (intro Day_within_west) simp_all
  then show ?thesis
    by (simp only: addDaysIST_day [OF y] istDateISO_day)
qed

text \<open>
  Claim C8, as stated, fails in its last part: going through the zone's date parts does
  not make the relation hold in every zone that observes daylight saving time. In New York
  at noon of 7 March 2026, the eve of the change to summer time, the zone's date is
  7 March and the date computed for tomorrow is 7 March again, not 8 March:
  \<^verbatim>\<open>addDaysIST\<close> returns midnight UTC of 8 March, which is the evening of 7 March
  west of Greenwich.
\<close>

theorem C8_west_zone_counterexample:
  "istDateISO new_york 1772902800000 = \<lparr>yyyy = 2026, mm = 3, dd = 7\<rparr> \<and>
   addDaysIST new_york 1772902800000 1 = 1772928000000 \<and>
   istDateISO new_york (addDaysIST new_york 1772902800000 1) = \<lparr>yyyy = 2026, mm = 3, dd = 7\<rparr> \<and>
   next_day \<lparr>yyyy = 2026, mm = 3, dd = 7\<rparr> = \<lparr>yyyy = 2026, mm = 3, dd = 8\<rparr>"
  by code_simp

text \<open>
  Claim C8, amended. For a reference instant \<open>t\<close> whose year in the zone is at least 100
  (\<^verbatim>\<open>Date.UTC\<close> reads a year from 0 to 99 as 19xx) and whose day after next is within
  the range of \<^verbatim>\<open>Date\<close>:
  \<^item> for every table of offsets between 0 and 24 hours, whatever the offset is at each
    instant, the date \<^verbatim>\<open>istDateISO(addDaysIST(t, 1))\<close> is the calendar day after
    \<^verbatim>\<open>istDateISO(t)\<close>, and so for the long forms. This covers Asia/Kolkata, the
    zone fixed in the code, and any zone east of Greenwich across its daylight-saving
    changes: \<^verbatim>\<open>addDaysIST\<close> goes through the date parts, not through 24 hours;
  \<^item> for every table of offsets from -24 hours to below 0, the date computed for
    tomorrow is today's date;
  \<^item> the interpreter's prompt reads the clock once for each of its dates. With offsets
    between 0 and 24 hours, its tomorrow is the day after its today when the reads behind
    today and tomorrow, in both forms, fall on the date that \<open>t\<close> has in the zone.
\<close>

theorem C8_tomorrow_amended:
  assumes "100 \<le> yyyy (istDateISO off t)"
    and "t + 2 * msPerDay \<le> 8640000000000000"
  shows "((\<forall>u. 0 \<le> off u \<and> off u < msPerDay) \<longrightarrow>
            istDateISO off (addDaysIST off t 1) = next_day (istDateISO off t) \<and>
            istDateHuman off (addDaysIST off t 1) = next_day (istDateHuman off t)) \<and>
         ((\<forall>u. - msPerDay \<le> off u \<and> off u < 0) \<longrightarrow>
            istDateISO off (addDaysIST off t 1) = istDateISO off t \<and>
            istDateHuman off (addDaysIST off t 1) = istDateHuman off t) \<and>
         ((\<forall>u. 0 \<le> off u \<and> off u < msPerDay) \<and>
          istDateISO off (at_todayISO r) = istDateISO off t \<and>
          istDateISO off (at_tomorrowISO r) = istDateISO off t \<and>
          istDateISO off (at_todayHuman r) = istDateISO off t \<and>
          istDateISO off (at_tomorrowHuman r) = istDateISO off t \<longrightarrow>
            (case buildInterpreterPrompt off r lang of
               InterpreterPrompt p \<Rightarrow>
                 tomorrowISO p = next_day (todayISO p) \<and>
                 tomorrowHuman p = next_day (todayHuman p)
             | GurujiInstruction g \<Rightarrow> False
             | TranslateInstruction \<Rightarrow> False))"
proof -
  have h: "istDateHuman off u = istDateISO off u" for u
    by (simp add: istDateHuman_def istDateISO_def)
  have e: "istDateISO off (addDaysIST off t 1) = next_day (istDateISO off t)"
    if "\<forall>u. 0 \<le> off u \<and> off u < msPerDay"
    using that assms(1) by (rule tomorrow_east)
  have w: "istDateISO off (addDaysIST off t 1) = istDateISO off t"
    if "\<forall>u. - msPerDay \<le> off u \<and> off u < 0"
    using that assms(1) by (rule tomorrow_west)
  have p: "(case buildInterpreterPrompt off r lang of
               InterpreterPrompt p \<Rightarrow>
                 tomorrowISO p = next_day (todayISO p) \<and>
                 tomorrowHuman p = next_day (todayHuman p)
             | GurujiInstruction g \<Rightarrow> False
             | TranslateInstruction \<Rightarrow> False)"
    if z: "\<forall>u. 0 \<le> off u \<and> off u < msPerDay"
      and a: "istDateISO off (at_todayISO r) = istDateISO off t"
      and b: "istDateISO off (at_tomorrowISO r) = istDateISO off t"
      and c: "istDateISO off (at_todayHuman r) = istDateISO off t"
      and d: "istDateISO off (at_tomorrowHuman r) = istDateISO off t"
  proof -
    have "100 \<le> yyyy (istDateISO off (at_tomorrowISO r))"
      using assms(1) by (simp only: b)
    with z have e1: "istDateISO off (addDaysIST off (at_tomorrowISO r) 1) =
        next_day (istDateISO off (at_tomorrowISO r))"
      by (rule tomorrow_east)
    have "100 \<le> yyyy (istDateISO off (at_tomorrowHuman r))"
      using assms(1) by (simp only: d)
    with z have e2: "istDateISO off (addDaysIST off (at_tomorrowHuman r) 1) =
        next_day (istDateISO off (at_tomorrowHuman r))"
      by (rule tomorrow_east)
    show ?thesis
      by (simp add: buildInterpreterPrompt_def h e1 e2 a b c d)
  qed
  show ?thesis
    using e w p by (simp add: h)
qed

lemma zone_facts:
  "\<forall>u. 0 \<le> kolkata u \<and> kolkata u < msPerDay" "\<forall>u. 0 \<le> berlin u \<and> berlin u < msPerDay"
  "\<forall>u. - msPerDay \<le> new_york u \<and> new_york u < 0"
  by (simp_all add: kolkata_def berlin_def new_york_def msPerDay_def)

lemma sample_dates:
  "istDateISO kolkata 1770000000000 = \<lparr>yyyy = 2026, mm = 2, dd = 2\<rparr>"
  "istDateISO berlin 1774737000000 = \<lparr>yyyy = 2026, mm = 3, dd = 28\<rparr>"
  "istDateISO berlin (1774737000000 + msPerDay) = \<lparr>yyyy = 2026, mm = 3, dd = 30\<rparr>"
  "istDateISO new_york 1772946000000 = \<lparr>yyyy = 2026, mm = 3, dd = 8\<rparr>"
  "istDateISO kolkata 1769999000000 = \<lparr>yyyy = 2026, mm = 2, dd = 2\<rparr>"
  "istDateISO kolkata 1770000000007 = \<lparr>yyyy = 2026, mm = 2, dd = 2\<rparr>"
  by code_simp+

text \<open>
  The theorem at Kolkata, at Berlin on the eve of its change to summer time (where 24
  hours after 23:30 of 28 March is already 30 March, see \<open>sample_dates\<close>), at New York
  in the night of its change, and for a prompt whose reads for today come some minutes
  before its reads for tomorrow, on the same day.
\<close>

theorem C8_tomorrow_amended_witness:
  "100 \<le> yyyy (istDateISO kolkata 1770000000000) \<and>
   (1770000000000::int) + 2 * msPerDay \<le> 8640000000000000 \<and>
   (\<forall>u. 0 \<le> kolkata u \<and> kolkata u < msPerDay) \<and>
   istDateISO kolkata 1770000000000 = \<lparr>yyyy = 2026, mm = 2, dd = 2\<rparr> \<and>
   istDateISO kolkata (addDaysIST kolkata 1770000000000 1) = \<lparr>yyyy = 2026, mm = 2, dd = 3\<rparr> \<and>
   100 \<le> yyyy (istDateISO berlin 1774737000000) \<and>
   (1774737000000::int) + 2 * msPerDay \<le> 8640000000000000 \<and>
   (\<forall>u. 0 \<le> berlin u \<and> berlin u < msPerDay) \<and>
   istDateISO berlin 1774737000000 = \<lparr>yyyy = 2026, mm = 3, dd = 28\<rparr> \<and>
   istDateISO berlin (addDaysIST berlin 1774737000000 1) = \<lparr>yyyy = 2026, mm = 3, dd = 29\<rparr> \<and>
   100 \<le> yyyy (istDateISO new_york 1772946000000) \<and>
   (1772946000000::int) + 2 * msPerDay \<le> 8640000000000000 \<and>
   (\<forall>u. - msPerDay \<le> new_york u \<and> new_york u < 0) \<and>
   istDateISO new_york 1772946000000 = \<lparr>yyyy = 2026, mm = 3, dd = 8\<rparr> \<and>
   istDateISO new_york (addDaysIST new_york 1772946000000 1) = \<lparr>yyyy = 2026, mm = 3, dd = 8\<rparr> \<and>
   istDateISO kolkata 1769999000000 = istDateISO kolkata 1770000000000 \<and>
   istDateISO kolkata 1770000000007 = istDateISO kolkata 1770000000000 \<and>
   (case buildInterpreterPrompt kolkata
           ((reads_at 1770000000007)\<lparr>at_todayISO := 1769999000000,
              at_tomorrowISO := 1770000000000, at_todayHuman := 1769999000000\<rparr>)
           (lit ''mr'') of
      InterpreterPrompt p \<Rightarrow>
        tomorrowISO p = next_day (todayISO p) \<and> tomorrowHuman p = next_day (todayHuman p)
    | GurujiInstruction g \<Rightarrow> False
    | TranslateInstruction \<Rightarrow> False)"
proof -
  let ?r = "(reads_at 1770000000007)\<lparr>at_todayISO := 1769999000000,
      at_tomorrowISO := 1770000000000, at_todayHuman := 1769999000000\<rparr>"
  have r: "(1770000000000::int) + 2 * msPerDay \<le> 8640000000000000"
    "(1774737000000::int) + 2 * msPerDay \<le> 8640000000000000"
    "(1772946000000::int) + 2 * msPerDay \<le> 8640000000000000"
    by (simp_all add: msPerDay_def)
  have y: "100 \<le> yyyy (istDateISO kolkata 1770000000000)"
    "100 \<le> yyyy (istDateISO berlin 1774737000000)"
    "100 \<le> yyyy (istDateISO new_york 1772946000000)"
    by (simp_all add: sample_dates)
  have k: "istDateISO kolkata (addDaysIST kolkata 1770000000000 1) = \<lparr>yyyy = 2026, mm = 2, dd = 3\<rparr>"
    using C8_tomorrow_amended [OF y(1) r(1)] zone_facts(1)
    by (simp add: sample_dates next_day_def days_in_month_def)
  have b: "istDateISO berlin (addDaysIST berlin 1774737000000 1) = \<lparr>yyyy = 2026, mm = 3, dd = 29\<rparr>"
    using C8_tomorrow_amended [OF y(2) r(2)] zone_facts(2)
    by (simp add: sample_dates next_day_def days_in_month_def)
  have n: "istDateISO new_york (addDaysIST new_york 1772946000000 1) = \<lparr>yyyy = 2026, mm = 3, dd = 8\<rparr>"
    using C8_tomorrow_amended [OF y(3) r(3)] zone_facts(3)
    by (simp add: sample_dates)
  have s: "istDateISO kolkata 1769999000000 = istDateISO kolkata 1770000000000"
    "istDateISO kolkata 1770000000007 = istDateISO kolkata 1770000000000"
    by (simp_all add: sample_dates)
  have f: "at_tomorrowISO ?r = 1770000000000" "at_tomorrowHuman ?r = 1770000000007"
    "at_todayISO ?r = 1769999000000" "at_todayHuman ?r = 1769999000000"
    by (simp_all add: reads_at_def)
  have d: "istDateISO kolkata (at_todayISO ?r) = istDateISO kolkata 1770000000000"
    "istDateISO kolkata (at_tomorrowISO ?r) = istDateISO kolkata 1770000000000"
    "istDateISO kolkata (at_todayHuman ?r) = istDateISO kolkata 1770000000000"
    "istDateISO kolkata (at_tomorrowHuman ?r) = istDateISO kolkata 1770000000000"
    using s by (simp_all only: f)
  have p: "(case buildInterpreterPrompt kolkata ?r (lit ''mr'') of
      InterpreterPrompt p \<Rightarrow>
        tomorrowISO p = next_day (todayISO p) \<and> tomorrowHuman p = next_day (todayHuman p)
    | GurujiInstruction g \<Rightarrow> False
    | TranslateInstruction \<Rightarrow> False)"
    using C8_tomorrow_amended [OF y(1) r(1), where r = ?r and lang = "lit ''mr''"]
      zone_facts(1) d
    by blast
  show ?thesis
    using y r zone_facts k b n s p by (simp add: sample_dates)
qed

text \<open>
  The reads of the prompt are separate calls of \<^verbatim>\<open>new Date()\<close>. When midnight in
  Kolkata passes between the read for today and the read for tomorrow, the prompt gives
  31 December for today and 2 January for tomorrow.
\<close>

lemma prompt_reads_across_midnight:
  "(case buildInterpreterPrompt kolkata
           ((reads_at 1767205800000)\<lparr>at_todayISO := 1767205799999\<rparr>) (lit ''mr'') of
      InterpreterPrompt p \<Rightarrow>
        todayISO p = \<lparr>yyyy = 2025, mm = 12, dd = 31\<rparr> \<and>
        tomorrowISO p = \<lparr>yyyy = 2026, mm = 1, dd = 2\<rparr>
    | GurujiInstruction g \<Rightarrow> False
    | TranslateInstruction \<Rightarrow> False)"
  by code_simp

end
